theory Spec2Isabelle
  imports Main "HOL-Library.AList"
begin

section \<open>Runtime values shared by the executors of \<^verbatim>\<open>index.js\<close>\<close>

text \<open>
  A JavaScript exception is a value: \<open>Error msg\<close> for \<^verbatim>\<open>new Error(msg)\<close> and for the
  errors of the Node.js library, \<open>TypeError\<close> and \<open>SyntaxError\<close> for the two built-in
  kinds the program can raise. A function that may throw returns \<open>error + 'a\<close> together
  with the state it leaves behind.
\<close>

datatype error = Error string | TypeError string | SyntaxError string

fun message :: "error \<Rightarrow> string" where
  "message (Error m) = m"
| "message (TypeError m) = m"
| "message (SyntaxError m) = m"

text \<open>
  The objects the executors return: \<^verbatim>\<open>{success: true, message}\<close>,
  \<^verbatim>\<open>{success: true, content}\<close>, \<^verbatim>\<open>{success: false, error}\<close> and so on, and \<^verbatim>\<open>null\<close>.
\<close>

datatype result =
    Ok_message string
  | Ok_content string
  | Ok_files "string list"
  | Ok_output string
  | Ok_processName string
  | Ok_inserted nat
  | Ok_data "string list"
  | Fail_message string
  | Fail_error string
  | Null

fun success :: "result \<Rightarrow> bool" where
  "success (Fail_message _) = False"
| "success (Fail_error _) = False"
| "success Null = False"
| "success _ = True"

text \<open>
  What the outside world can observe: a line on the console (colours and pictographs
  left out), \<^verbatim>\<open>process.kill()\<close> called on a child handle, a child spawned, a shell
  command executed, a watcher or a database connection opened or closed.
\<close>

datatype event =
    Console string
  | Kill nat
  | Spawn nat string "string list" string
  | Exec string string
  | WatchOpen nat string
  | WatchClose nat
  | DbConnect nat string
  | DbClose nat
  | DbCall string string

record ProcessEntry =
  process :: nat
  command :: string
  startTime :: nat
  logFile :: "string option"

record HistoryEntry =
  h_command :: string
  h_timestamp :: nat
  h_type :: string
  h_description :: string

text \<open>A node of the file system, keyed by the list of its path segments inside the root.\<close>

datatype node = File string | Dir

type_synonym fsys = "(string list \<times> node) list"

text \<open>
  \<^verbatim>\<open>projectState\<close> together with the parts of the process the program reads and writes:
  the working directory of the process (\<^verbatim>\<open>process.cwd()\<close>), the file system, the clock,
  the next free handle and the trace of events. A \<^verbatim>\<open>Map\<close> is an association list in
  insertion order: \<^verbatim>\<open>has\<close>/\<^verbatim>\<open>get\<close> are \<open>map_of\<close>, \<^verbatim>\<open>set\<close> is \<open>AList.update\<close> (in place for
  a key that is present, at the end for a new one), \<^verbatim>\<open>delete\<close> is \<open>AList.delete\<close>.
\<close>

record world =
  cwd :: string
  currentDirectory :: string
  runningProcesses :: "(string \<times> ProcessEntry) list"
  history :: "HistoryEntry list"
  fileWatchers :: "(string \<times> nat) list"
  databases :: "(string \<times> nat) list"
  files :: fsys
  clock :: nat
  next_handle :: nat
  events :: "event list"

text \<open>
  The behaviour of everything outside the program, fixed per run: how \<^verbatim>\<open>kill()\<close> on a
  handle ends (it returns \<^verbatim>\<open>true\<close>, returns \<^verbatim>\<open>false\<close> because the child is already gone,
  or throws), what a shell command does to the file system and prints, whether
  \<^verbatim>\<open>close()\<close> on a watcher throws, whether closing a connection fails, what the
  database driver and the language model answer.
\<close>

datatype kill_result = Delivered | AlreadyExited | KillThrows string

record env =
  kill_outcome :: "nat \<Rightarrow> kill_result"
  shell :: "string \<Rightarrow> string \<Rightarrow> fsys \<Rightarrow> (string + string) \<times> fsys"
  watcher_close :: "nat \<Rightarrow> string option"
  db_connect :: "string \<Rightarrow> string option"
  db_close :: "nat \<Rightarrow> string option"
  db_call :: "string \<Rightarrow> string \<Rightarrow> string + string list"
  generateContent :: "string \<Rightarrow> string + string"

definition console :: "string \<Rightarrow> world \<Rightarrow> world" where
  "console line s = s\<lparr>events := events s @ [Console line]\<rparr>"

definition emit :: "event \<Rightarrow> world \<Rightarrow> world" where
  "emit e s = s\<lparr>events := events s @ [e]\<rparr>"

section \<open>Strings\<close>

text \<open>\<^verbatim>\<open>s.split(c)\<close> for a one-character separator; the result is never empty.\<close>

fun split :: "char \<Rightarrow> string \<Rightarrow> string list" where
  "split c [] = [[]]"
| "split c (x # xs) =
     (if x = c then [] # split c xs
      else (case split c xs of w # ws \<Rightarrow> (x # w) # ws | [] \<Rightarrow> [[x]]))"

text \<open>\<^verbatim>\<open>xs.join(sep)\<close> on an array of strings.\<close>

fun join :: "string \<Rightarrow> string list \<Rightarrow> string" where
  "join sep [] = []"
| "join sep [x] = x"
| "join sep (x # y # ys) = x @ sep @ join sep (y # ys)"

text \<open>
  White space of \<^verbatim>\<open>String.prototype.trim\<close> and of \<^verbatim>\<open>\s\<close> among the 8-bit characters:
  tab, line feed, vertical tab, form feed, carriage return, space, no-break space.
\<close>

definition is_space :: "char \<Rightarrow> bool" where
  "is_space c = (c \<in> set [CHR 0x09, CHR 0x0A, CHR 0x0B, CHR 0x0C, CHR 0x0D, CHR 0x20, CHR 0xA0])"

definition trim :: "string \<Rightarrow> string" where
  "trim s = rev (dropWhile is_space (rev (dropWhile is_space s)))"

section \<open>Paths and the file system\<close>

text \<open>
  The POSIX functions of Node's \<^verbatim>\<open>path\<close> module the program calls. \<open>normalizeString\<close>
  drops empty and \<^verbatim>\<open>.\<close> segments and resolves \<^verbatim>\<open>..\<close> against the segment before it; a
  relative path keeps the \<^verbatim>\<open>..\<close> it cannot resolve.
\<close>

definition isAbsolute :: "string \<Rightarrow> bool" where
  "isAbsolute p = (case p of [] \<Rightarrow> False | c # _ \<Rightarrow> c = CHR ''/'')"

fun normalizeString :: "bool \<Rightarrow> string list \<Rightarrow> string list \<Rightarrow> string list" where
  "normalizeString allowAboveRoot [] acc = rev acc"
| "normalizeString allowAboveRoot (x # xs) acc =
     (if x = [] \<or> x = ''.'' then normalizeString allowAboveRoot xs acc
      else if x = ''..'' then
        (case acc of
           [] \<Rightarrow> normalizeString allowAboveRoot xs (if allowAboveRoot then [''..''] else [])
         | a # as \<Rightarrow>
             if a = ''..'' then normalizeString allowAboveRoot xs (''..'' # acc)
             else normalizeString allowAboveRoot xs as)
      else normalizeString allowAboveRoot xs (x # acc))"

definition normalize :: "string \<Rightarrow> string" where
  "normalize p =
     (if p = [] then ''.''
      else
        (let body = join ''/'' (normalizeString (\<not> isAbsolute p) (split CHR ''/'' p) []);
             trailing = (last p = CHR ''/'')
         in if body = [] then (if isAbsolute p then ''/'' else if trailing then ''./'' else ''.'')
            else (if isAbsolute p then ''/'' else []) @ body @ (if trailing then ''/'' else [])))"

definition path_join :: "string \<Rightarrow> string \<Rightarrow> string" where
  "path_join a b =
     (case filter (\<lambda>x. x \<noteq> []) [a, b] of
        [] \<Rightarrow> ''.''
      | parts \<Rightarrow> normalize (join ''/'' parts))"

text \<open>
  The file system calls resolve a relative path against the working directory of the
  process. A node is found under the list of its segments; the root is the empty list
  and is always a directory.
\<close>

definition fs_key :: "string \<Rightarrow> string \<Rightarrow> string list" where
  "fs_key dir p =
     normalizeString False (split CHR ''/'' (if isAbsolute p then p else dir @ ''/'' @ p)) []"

definition is_dir :: "fsys \<Rightarrow> string list \<Rightarrow> bool" where
  "is_dir fs k = (k = [] \<or> map_of fs k = Some Dir)"

definition is_file :: "fsys \<Rightarrow> string list \<Rightarrow> bool" where
  "is_file fs k = (case map_of fs k of Some (File c) \<Rightarrow> True | _ \<Rightarrow> False)"

definition inside :: "string list \<Rightarrow> string list \<Rightarrow> bool" where
  "inside k k' = (take (length k) k' = k)"

definition children :: "fsys \<Rightarrow> string list \<Rightarrow> string list" where
  "children fs k = map (\<lambda>(k', n). last k') (filter (\<lambda>(k', n). length k' = Suc (length k) \<and> inside k k') fs)"

definition chdir :: "string \<Rightarrow> world \<Rightarrow> error + world" where
  "chdir p s =
     (let k = fs_key (cwd s) p
      in if is_dir (files s) k then Inr (s\<lparr>cwd := ''/'' @ join ''/'' k\<rparr>)
         else Inl (Error (''ENOENT: no such file or directory, chdir '' @ p)))"

definition fs_readFile :: "string \<Rightarrow> world \<Rightarrow> error + string" where
  "fs_readFile p s =
     (case map_of (files s) (fs_key (cwd s) p) of
        Some (File c) \<Rightarrow> Inr c
      | Some Dir \<Rightarrow> Inl (Error ''EISDIR: illegal operation on a directory, read'')
      | None \<Rightarrow>
          if fs_key (cwd s) p = [] then Inl (Error ''EISDIR: illegal operation on a directory, read'')
          else Inl (Error (''ENOENT: no such file or directory, open '' @ p)))"

definition fs_writeFile :: "string \<Rightarrow> string option \<Rightarrow> world \<Rightarrow> error + world" where
  "fs_writeFile p content s =
     (let k = fs_key (cwd s) p
      in case content of
           None \<Rightarrow> Inl (TypeError ''The data argument must be of type string'')
         | Some c \<Rightarrow>
             if is_dir (files s) k
             then Inl (Error (''EISDIR: illegal operation on a directory, open '' @ p))
             else if \<not> is_dir (files s) (butlast k)
             then Inl (Error (''ENOENT: no such file or directory, open '' @ p))
             else Inr (s\<lparr>files := AList.update k (File c) (files s)\<rparr>))"

definition fs_appendFile :: "string \<Rightarrow> string option \<Rightarrow> world \<Rightarrow> error + world" where
  "fs_appendFile p content s =
     (case content of
        None \<Rightarrow> Inl (TypeError ''The data argument must be of type string'')
      | Some c \<Rightarrow>
          (case map_of (files s) (fs_key (cwd s) p) of
             Some (File old) \<Rightarrow> fs_writeFile p (Some (old @ c)) s
           | _ \<Rightarrow> fs_writeFile p (Some c) s))"

definition fs_unlink :: "string \<Rightarrow> world \<Rightarrow> error + world" where
  "fs_unlink p s =
     (let k = fs_key (cwd s) p
      in case map_of (files s) k of
           Some (File c) \<Rightarrow> Inr (s\<lparr>files := AList.delete k (files s)\<rparr>)
         | Some Dir \<Rightarrow> Inl (Error (''EISDIR: illegal operation on a directory, unlink '' @ p))
         | None \<Rightarrow> Inl (Error (''ENOENT: no such file or directory, unlink '' @ p)))"

text \<open>\<^verbatim>\<open>fs.rename\<close>: the node and everything inside it move to the new key.\<close>

definition fs_rename :: "string \<Rightarrow> string \<Rightarrow> world \<Rightarrow> error + world" where
  "fs_rename p q s =
     (let k = fs_key (cwd s) p; k' = fs_key (cwd s) q; fs = files s
      in case map_of fs k of
           None \<Rightarrow> Inl (Error (''ENOENT: no such file or directory, rename '' @ p))
         | Some n \<Rightarrow>
             if k' = [] \<or> \<not> is_dir fs (butlast k')
             then Inl (Error (''ENOENT: no such file or directory, rename '' @ p))
             else if k = k' then Inr s
             else if inside k k'
             then Inl (Error (''EINVAL: invalid argument, rename '' @ p))
             else if n = Dir \<and> is_file fs k'
             then Inl (Error (''ENOTDIR: not a directory, rename '' @ p))
             else if n \<noteq> Dir \<and> map_of fs k' = Some Dir
             then Inl (Error (''EISDIR: illegal operation on a directory, rename '' @ p))
             else if n = Dir \<and> children fs k' \<noteq> []
             then Inl (Error (''ENOTEMPTY: directory not empty, rename '' @ p))
             else Inr (s\<lparr>files :=
                         map (\<lambda>(j, m). if inside k j then (k' @ drop (length k) j, m) else (j, m))
                           (filter (\<lambda>(j, m). \<not> inside k' j) fs)\<rparr>))"

text \<open>
  \<^verbatim>\<open>fs.mkdir(p, {recursive: true})\<close>: every missing directory on the way is created; a
  file at the path is \<^verbatim>\<open>EEXIST\<close>, a file on the way to it \<^verbatim>\<open>ENOTDIR\<close>.
\<close>

fun mkdirs :: "string list \<Rightarrow> string list \<Rightarrow> fsys \<Rightarrow> string + fsys" where
  "mkdirs pre [] fs = Inr fs"
| "mkdirs pre (x # xs) fs =
     (case map_of fs (pre @ [x]) of
        Some (File c) \<Rightarrow>
          Inl (if xs = [] then ''EEXIST: file already exists, mkdir ''
               else ''ENOTDIR: not a directory, mkdir '')
      | Some Dir \<Rightarrow> mkdirs (pre @ [x]) xs fs
      | None \<Rightarrow> mkdirs (pre @ [x]) xs (fs @ [(pre @ [x], Dir)]))"

definition fs_mkdir :: "string \<Rightarrow> world \<Rightarrow> error + world" where
  "fs_mkdir p s =
     (case mkdirs [] (fs_key (cwd s) p) (files s) of
        Inl err \<Rightarrow> Inl (Error (err @ p))
      | Inr fs' \<Rightarrow> Inr (s\<lparr>files := fs'\<rparr>))"

text \<open>\<^verbatim>\<open>fs.rm(p, {recursive: true, force: true})\<close>: a missing path is no error.\<close>

definition fs_rm :: "string \<Rightarrow> world \<Rightarrow> error + world" where
  "fs_rm p s =
     (let k = fs_key (cwd s) p
      in Inr (s\<lparr>files := filter (\<lambda>(j, m). \<not> inside k j) (files s)\<rparr>))"

definition fs_rmdir :: "string \<Rightarrow> world \<Rightarrow> error + world" where
  "fs_rmdir p s =
     (let k = fs_key (cwd s) p
      in case map_of (files s) k of
           None \<Rightarrow> Inl (Error (''ENOENT: no such file or directory, rmdir '' @ p))
         | Some (File c) \<Rightarrow> Inl (Error (''ENOTDIR: not a directory, rmdir '' @ p))
         | Some Dir \<Rightarrow>
             if children (files s) k \<noteq> []
             then Inl (Error (''ENOTEMPTY: directory not empty, rmdir '' @ p))
             else Inr (s\<lparr>files := AList.delete k (files s)\<rparr>))"

definition fs_readdir :: "string \<Rightarrow> world \<Rightarrow> error + string list" where
  "fs_readdir p s =
     (let k = fs_key (cwd s) p
      in if is_dir (files s) k then Inr (children (files s) k)
         else if map_of (files s) k = None
         then Inl (Error (''ENOENT: no such file or directory, scandir '' @ p))
         else Inl (Error (''ENOTDIR: not a directory, scandir '' @ p)))"

definition resolveProjectPath :: "string \<Rightarrow> world \<Rightarrow> string" where
  "resolveProjectPath filePath s =
     (if isAbsolute filePath then filePath else path_join (currentDirectory s) filePath)"

text \<open>
  A value in a template literal or on the left of \<^verbatim>\<open>||\<close>: a missing field prints as
  \<^verbatim>\<open>undefined\<close>; a missing or empty string is falsy.
\<close>

definition template :: "string option \<Rightarrow> string" where
  "template v = (case v of None \<Rightarrow> ''undefined'' | Some x \<Rightarrow> x)"

definition or_else :: "string option \<Rightarrow> string \<Rightarrow> string" where
  "or_else v d = (case v of None \<Rightarrow> d | Some x \<Rightarrow> if x = [] then d else x)"

definition truthy :: "string option \<Rightarrow> bool" where
  "truthy v = (case v of None \<Rightarrow> False | Some x \<Rightarrow> x \<noteq> [])"

section \<open>Shell commands: \<^verbatim>\<open>execPromise\<close>\<close>

text \<open>
  \<^verbatim>\<open>exec(command, {cwd: projectState.currentDirectory}, ...)\<close>: the command runs in
  \<open>currentDirectory\<close>; a failure rejects with the combined message, a success resolves
  with the trimmed standard output.
\<close>

definition execPromise :: "env \<Rightarrow> string \<Rightarrow> world \<Rightarrow> (error + string) \<times> world" where
  "execPromise env cmd s =
     (let s1 = emit (Exec cmd (currentDirectory s)) s;
          (out, fs') = shell env cmd (currentDirectory s) (files s1);
          s2 = s1\<lparr>files := fs'\<rparr>
      in case out of
           Inl err \<Rightarrow> (Inl (Error err), s2)
         | Inr stdout \<Rightarrow> (Inr (trim stdout), s2))"

section \<open>Process management\<close>

record start_options =
  name :: "string option"
  waitForExit :: bool
  opt_cwd :: "string option"
  opt_logFile :: "string option"

definition stopProcess :: "env \<Rightarrow> string \<Rightarrow> world \<Rightarrow> result \<times> world" where
  "stopProcess env processName s =
     (case map_of (runningProcesses s) processName of
        None \<Rightarrow>
          (Fail_message (''No running process named '' @ processName),
           console (''No running process named '' @ processName) s)
      | Some entry \<Rightarrow>
          (case kill_outcome env (process entry) of
             KillThrows msg \<Rightarrow>
               (Fail_error msg,
                console (''Error stopping process '' @ processName @ '': '' @ msg)
                  (emit (Kill (process entry)) s))
           | _ \<Rightarrow>
               (Ok_message (''Process '' @ processName @ '' stopped''),
                console (''Stopped process: '' @ processName)
                  ((emit (Kill (process entry)) s)
                     \<lparr>runningProcesses := AList.delete processName (runningProcesses s)\<rparr>))))"

text \<open>
  \<^verbatim>\<open>name || command.split(' ')[0]\<close>: a missing or empty name gives the text of the
  command before its first space character.
\<close>

definition processName_of :: "string option \<Rightarrow> string \<Rightarrow> string" where
  "processName_of nm cmd =
     (if truthy nm then template nm
      else (case split CHR '' '' cmd of w # ws \<Rightarrow> w | [] \<Rightarrow> []))"

text \<open>
  The body of \<^verbatim>\<open>startProcess\<close> after the check for a process of the same name.
  With \<^verbatim>\<open>waitForExit\<close> the command runs to its end and nothing is registered. Otherwise
  a truthy \<^verbatim>\<open>logFile\<close> calls \<^verbatim>\<open>fs.openSync\<close>, which \<^verbatim>\<open>require('fs').promises\<close> does not
  have, so the call throws a \<^verbatim>\<open>TypeError\<close>; \<^verbatim>\<open>spawn\<close> rejects an empty file name; a spawned
  child gets the next handle and is stored under the process name.
\<close>

definition launch :: "env \<Rightarrow> string \<Rightarrow> start_options \<Rightarrow> string \<Rightarrow> world \<Rightarrow> (error + result) \<times> world" where
  "launch env cmd opts processName s =
     (if waitForExit opts then
        (case execPromise env cmd s of
           (Inl e, s') \<Rightarrow> (Inl e, s')
         | (Inr out, s') \<Rightarrow> (Inr (Ok_output out), s'))
      else
        (case split CHR '' '' cmd of
           [] \<Rightarrow> (Inl (TypeError ''The argument 'file' cannot be empty''), s)
         | c # args \<Rightarrow>
            (if truthy (opt_logFile opts) then
               (Inl (TypeError ''fs.openSync is not a function''), s)
             else if c = [] then
               (Inl (TypeError ''The argument 'file' cannot be empty''), s)
             else
               (let h = next_handle s;
                    dir = (case opt_cwd opts of None \<Rightarrow> currentDirectory s | Some d \<Rightarrow> d);
                    s1 = (emit (Spawn h c args dir) s)\<lparr>next_handle := Suc h\<rparr>;
                    s2 = s1\<lparr>runningProcesses :=
                            AList.update processName
                              \<lparr>process = h, command = cmd, startTime = clock s,
                               logFile = opt_logFile opts\<rparr>
                              (runningProcesses s1)\<rparr>
                in (Inr (Ok_processName processName),
                    console (''Started process: '' @ processName) s2)))))"

definition startProcess :: "env \<Rightarrow> string \<Rightarrow> start_options \<Rightarrow> world \<Rightarrow> (error + result) \<times> world" where
  "startProcess env cmd opts s =
     (let processName = processName_of (name opts) cmd;
          s1 = (if map_of (runningProcesses s) processName \<noteq> None
                then snd (stopProcess env processName s) else s)
      in launch env cmd opts processName s1)"

text \<open>
  The \<^verbatim>\<open>'exit'\<close> listener installed by \<^verbatim>\<open>startProcess\<close>; the runtime calls it, between two
  steps of the program, when the child has ended.
\<close>

definition on_exit :: "string \<Rightarrow> string \<Rightarrow> world \<Rightarrow> world" where
  "on_exit processName code s =
     (console (''Process '' @ processName @ '' exited with code '' @ code) s)
       \<lparr>runningProcesses := AList.delete processName (runningProcesses s)\<rparr>"

section \<open>File operations\<close>

text \<open>
  \<^verbatim>\<open>watchFiles\<close>: a directory that is already watched is left alone; otherwise a watcher
  is opened (it gets the next handle) and stored under the path.
\<close>

definition watchFiles :: "string \<Rightarrow> world \<Rightarrow> world" where
  "watchFiles dirPath s =
     (if map_of (fileWatchers s) dirPath \<noteq> None then s
      else
        (let w = next_handle s;
             s1 = (emit (WatchOpen w dirPath) s)\<lparr>next_handle := Suc w\<rparr>;
             s2 = s1\<lparr>fileWatchers := AList.update dirPath w (fileWatchers s1)\<rparr>
         in console (''Watching directory: '' @ dirPath) s2))"

text \<open>The \<^verbatim>\<open>'change'\<close> listener of a watcher, called by the runtime.\<close>

definition on_change :: "string \<Rightarrow> world \<Rightarrow> world" where
  "on_change p s = console (''File changed: '' @ p) s"

record file_operation =
  fo_action :: string
  fo_path :: string
  fo_content :: "string option"
  fo_newPath :: "string option"
  fo_recursive :: bool

text \<open>The \<^verbatim>\<open>switch\<close> of \<^verbatim>\<open>performFileOperation\<close>, inside its \<^verbatim>\<open>try\<close>.\<close>

definition fileOperation_body :: "file_operation \<Rightarrow> world \<Rightarrow> (error + result) \<times> world" where
  "fileOperation_body operation s =
     (let filePath = fo_path operation;
          fullPath = resolveProjectPath filePath s;
          action = fo_action operation;
          finish = (\<lambda>r msg. case r of Inl e \<Rightarrow> (Inl e, s) | Inr s' \<Rightarrow> (Inr (Ok_message msg), s'))
      in if action = ''read'' then
           (case fs_readFile fullPath s of
              Inl e \<Rightarrow> (Inl e, s)
            | Inr data \<Rightarrow> (Inr (Ok_content data), s))
         else if action = ''write'' then
           finish (fs_writeFile fullPath (fo_content operation) s) (''File written: '' @ filePath)
         else if action = ''append'' then
           finish (fs_appendFile fullPath (fo_content operation) s)
             (''Content appended to: '' @ filePath)
         else if action = ''delete'' then
           finish (fs_unlink fullPath s) (''File deleted: '' @ filePath)
         else if action = ''rename'' then
           (case fo_newPath operation of
              None \<Rightarrow> (Inl (TypeError ''The path argument must be of type string''), s)
            | Some newPath \<Rightarrow>
                finish (fs_rename fullPath (resolveProjectPath newPath s) s)
                  (''File renamed from '' @ filePath @ '' to '' @ newPath))
         else if action = ''mkdir'' then
           finish (fs_mkdir fullPath s) (''Directory created: '' @ filePath)
         else if action = ''rmdir'' then
           finish (if fo_recursive operation then fs_rm fullPath s else fs_rmdir fullPath s)
             (''Directory removed: '' @ filePath)
         else if action = ''list'' then
           (case fs_readdir fullPath s of
              Inl e \<Rightarrow> (Inl e, s)
            | Inr names \<Rightarrow> (Inr (Ok_files names), s))
         else if action = ''watch'' then
           (Inr (Ok_message (''Watching: '' @ filePath)), watchFiles fullPath s)
         else (Inl (Error (''Unsupported file operation: '' @ action)), s))"

text \<open>The \<^verbatim>\<open>catch\<close> of \<^verbatim>\<open>performFileOperation\<close> prints the message and throws the error again.\<close>

definition performFileOperation :: "file_operation \<Rightarrow> world \<Rightarrow> (error + result) \<times> world" where
  "performFileOperation operation s =
     (case fileOperation_body operation s of
        (Inl e, s') \<Rightarrow> (Inl e, console (''File operation error: '' @ message e) s')
      | (Inr r, s') \<Rightarrow> (Inr r, s'))"

section \<open>Package management\<close>

record package_operation =
  po_manager :: string
  po_action :: string
  po_packages :: "string list option"
  po_options :: "string option"
  po_directory :: "string option"

text \<open>\<^verbatim>\<open>packages.join(' ')\<close>; without \<^verbatim>\<open>packages\<close> the call throws.\<close>

definition joined_packages :: "package_operation \<Rightarrow> error + string" where
  "joined_packages operation =
     (case po_packages operation of
        None \<Rightarrow> Inl (TypeError ''Cannot read properties of undefined (reading 'join')'')
      | Some ps \<Rightarrow> Inr (join '' '' ps))"

text \<open>The two nested \<^verbatim>\<open>switch\<close> statements that build the command line.\<close>

definition package_command :: "package_operation \<Rightarrow> error + string" where
  "package_command operation =
     (let manager = po_manager operation; action = po_action operation;
          with_packages = (\<lambda>f. case joined_packages operation of Inl e \<Rightarrow> Inl e | Inr ps \<Rightarrow> Inr (f ps))
      in if manager = ''npm'' then
           (if action = ''install'' then
              with_packages (\<lambda>ps. ''npm install '' @ ps @ '' '' @ or_else (po_options operation) [])
            else if action = ''uninstall'' then with_packages (\<lambda>ps. ''npm uninstall '' @ ps)
            else if action = ''update'' then with_packages (\<lambda>ps. ''npm update '' @ ps)
            else if action = ''init'' then Inr ''npm init -y''
            else if action = ''run'' then Inr (''npm run '' @ template (po_options operation))
            else Inl (Error (''Unsupported NPM action: '' @ action)))
         else if manager = ''pip'' then
           (if action = ''install'' then
              with_packages (\<lambda>ps. ''pip install '' @ ps @ '' '' @ or_else (po_options operation) [])
            else if action = ''uninstall'' then with_packages (\<lambda>ps. ''pip uninstall -y '' @ ps)
            else if action = ''update'' then with_packages (\<lambda>ps. ''pip install --upgrade '' @ ps)
            else Inl (Error (''Unsupported pip action: '' @ action)))
         else Inl (Error (''Unsupported package manager: '' @ manager)))"

text \<open>
  The \<^verbatim>\<open>try\<close> block of \<^verbatim>\<open>handlePackageOperation\<close>: change into \<^verbatim>\<open>directory\<close> when it is
  given, build the command, run it, change back to \<open>currentDirectory\<close> when a
  directory was given.
\<close>

definition packageOperation_try ::
    "env \<Rightarrow> package_operation \<Rightarrow> world \<Rightarrow> (error + result) \<times> world" where
  "packageOperation_try env operation s =
     (case (if truthy (po_directory operation)
            then chdir (resolveProjectPath (template (po_directory operation)) s) s
            else Inr s) of
        Inl e \<Rightarrow> (Inl e, s)
      | Inr s1 \<Rightarrow>
          (case package_command operation of
             Inl e \<Rightarrow> (Inl e, s1)
           | Inr cmd \<Rightarrow>
               (case execPromise env cmd s1 of
                  (Inl e, s2) \<Rightarrow> (Inl e, s2)
                | (Inr out, s2) \<Rightarrow>
                    if truthy (po_directory operation) then
                      (case chdir (currentDirectory s2) s2 of
                         Inl e \<Rightarrow> (Inl e, s2)
                       | Inr s3 \<Rightarrow> (Inr (Ok_output out), s3))
                    else (Inr (Ok_output out), s2))))"

text \<open>
  The \<^verbatim>\<open>catch\<close> block changes back to \<open>currentDirectory\<close> first; if that call throws,
  its error leaves the function in place of the caught one.
\<close>

definition handlePackageOperation ::
    "env \<Rightarrow> package_operation \<Rightarrow> world \<Rightarrow> (error + result) \<times> world" where
  "handlePackageOperation env operation s =
     (case packageOperation_try env operation s of
        (Inr r, s') \<Rightarrow> (Inr r, s')
      | (Inl e, s') \<Rightarrow>
          (case chdir (currentDirectory s') s' of
             Inl e' \<Rightarrow> (Inl e', s')
           | Inr s'' \<Rightarrow> (Inl e, console (''Package management error: '' @ message e) s'')))"

section \<open>Git\<close>

record git_operation =
  go_action :: string
  go_repository :: "string option"
  go_branch :: "string option"
  go_message :: "string option"

definition git_command :: "git_operation \<Rightarrow> error + string \<times> string" where
  "git_command operation =
     (let action = go_action operation
      in if action = ''init'' then Inr (''git init'', ''Git repository initialized'')
         else if action = ''clone'' then
           Inr (''git clone '' @ template (go_repository operation),
                ''Repository cloned from '' @ template (go_repository operation))
         else if action = ''add'' then Inr (''git add .'', ''Changes staged'')
         else if action = ''commit'' then
           Inr (''git commit -m '' @ [CHR 0x22] @ or_else (go_message operation) ''Commit by AI Agent''
                  @ [CHR 0x22],
                ''Changes committed'')
         else if action = ''push'' then
           Inr (''git push origin '' @ or_else (go_branch operation) ''main'',
                ''Pushed to '' @ or_else (go_branch operation) ''main'')
         else if action = ''checkout'' then
           Inr (''git checkout '' @ template (go_branch operation),
                ''Switched to branch '' @ template (go_branch operation))
         else Inl (Error (''Unsupported Git operation: '' @ action)))"

definition handleGitOperation ::
    "env \<Rightarrow> git_operation \<Rightarrow> world \<Rightarrow> (error + result) \<times> world" where
  "handleGitOperation env operation s =
     (case (case git_command operation of
              Inl e \<Rightarrow> (Inl e, s)
            | Inr (cmd, msg) \<Rightarrow>
                (case execPromise env cmd s of
                   (Inl e, s') \<Rightarrow> (Inl e, s')
                 | (Inr out, s') \<Rightarrow> (Inr (Ok_message msg), s'))) of
        (Inl e, s') \<Rightarrow> (Inl e, console (''Git error: '' @ message e) s')
      | (Inr r, s') \<Rightarrow> (Inr r, s'))"

section \<open>Databases\<close>

record database_operation =
  dbType :: string
  dbo_action :: string
  connectionString :: string
  collection :: string

text \<open>
  \<^verbatim>\<open>handleMongoDBOperation\<close>: connect once per connection string, then hand the action
  to the driver. What the driver answers comes from the environment.
\<close>

definition handleMongoDBOperation ::
    "env \<Rightarrow> database_operation \<Rightarrow> world \<Rightarrow> (error + result) \<times> world" where
  "handleMongoDBOperation env operation s =
     (let cs = connectionString operation; action = dbo_action operation;
          coll = collection operation;
          connected =
            (if map_of (databases s) cs = None then
               (case db_connect env cs of
                  Some err \<Rightarrow> Inl (Error err)
                | None \<Rightarrow>
                    Inr ((emit (DbConnect (next_handle s) cs) s)
                           \<lparr>next_handle := Suc (next_handle s),
                            databases := AList.update cs (next_handle s) (databases s)\<rparr>))
             else Inr s)
      in case connected of
           Inl e \<Rightarrow> (Inl e, s)
         | Inr s1 \<Rightarrow>
             if action \<in> set [''create-collection'', ''insert'', ''query'', ''drop-collection''] then
               (case db_call env action coll of
                  Inl err \<Rightarrow> (Inl (Error err), emit (DbCall action coll) s1)
                | Inr docs \<Rightarrow>
                    (Inr (if action = ''create-collection''
                          then Ok_message (''Collection '' @ coll @ '' created'')
                          else if action = ''insert'' then Ok_inserted (length docs)
                          else if action = ''query'' then Ok_data docs
                          else Ok_message (''Collection '' @ coll @ '' dropped'')),
                     emit (DbCall action coll) s1))
             else (Inl (Error (''Unsupported MongoDB operation: '' @ action)), s1))"

definition handleDatabaseOperation ::
    "env \<Rightarrow> database_operation \<Rightarrow> world \<Rightarrow> (error + result) \<times> world" where
  "handleDatabaseOperation env operation s =
     (case (if dbType operation = ''mongodb'' then handleMongoDBOperation env operation s
            else if dbType operation \<in> set [''mysql'', ''postgres'', ''sqlite''] then
              (Inr Null, console (dbType operation @ '' operations not yet implemented'') s)
            else (Inl (Error (''Unsupported database type: '' @ dbType operation)), s)) of
        (Inl e, s') \<Rightarrow> (Inl e, console (''Database error: '' @ message e) s')
      | (Inr r, s') \<Rightarrow> (Inr r, s'))"

section \<open>Project setup and deployment\<close>

text \<open>A step of a project setup, by its \<^verbatim>\<open>type\<close>, with the fields of its \<^verbatim>\<open>details\<close>.\<close>

datatype setup_step =
    Step_mkdir string
  | Step_write string "string option"
  | Step_exec string
  | Step_install string "string list option" "string option"
  | Step_start string start_options
  | Step_git git_operation
  | Step_database database_operation
  | Step_other string

record project_setup =
  ps_projectType :: "string option"
  ps_name :: "string option"
  ps_path :: "string option"
  ps_steps :: "setup_step list"

definition setup_step_run :: "env \<Rightarrow> setup_step \<Rightarrow> world \<Rightarrow> (error + unit) \<times> world" where
  "setup_step_run env step s =
     (case step of
        Step_mkdir p \<Rightarrow>
          (case fs_mkdir p s of
             Inl e \<Rightarrow> (Inl e, s)
           | Inr s' \<Rightarrow> (Inr (), console (''Created directory: '' @ p) s'))
      | Step_write p content \<Rightarrow>
          (case fs_writeFile p content s of
             Inl e \<Rightarrow> (Inl e, s)
           | Inr s' \<Rightarrow> (Inr (), console (''Created file: '' @ p) s'))
      | Step_exec cmd \<Rightarrow>
          (case execPromise env cmd s of (Inl e, s') \<Rightarrow> (Inl e, s') | (Inr out, s') \<Rightarrow> (Inr (), s'))
      | Step_install manager packages options \<Rightarrow>
          (case handlePackageOperation env
                  \<lparr>po_manager = manager, po_action = ''install'', po_packages = packages,
                   po_options = options, po_directory = None\<rparr> s of
             (Inl e, s') \<Rightarrow> (Inl e, s') | (Inr r, s') \<Rightarrow> (Inr (), s'))
      | Step_start cmd opts \<Rightarrow>
          (case startProcess env cmd opts s of (Inl e, s') \<Rightarrow> (Inl e, s') | (Inr r, s') \<Rightarrow> (Inr (), s'))
      | Step_git operation \<Rightarrow>
          (case handleGitOperation env operation s of
             (Inl e, s') \<Rightarrow> (Inl e, s') | (Inr r, s') \<Rightarrow> (Inr (), s'))
      | Step_database operation \<Rightarrow>
          (case handleDatabaseOperation env operation s of
             (Inl e, s') \<Rightarrow> (Inl e, s') | (Inr r, s') \<Rightarrow> (Inr (), s'))
      | Step_other ty \<Rightarrow> (Inr (), console (''Unsupported setup step: '' @ ty) s))"

fun setup_steps :: "env \<Rightarrow> setup_step list \<Rightarrow> world \<Rightarrow> (error + unit) \<times> world" where
  "setup_steps env [] s = (Inr (), s)"
| "setup_steps env (step # steps) s =
     (case setup_step_run env step s of
        (Inl e, s') \<Rightarrow> (Inl e, s')
      | (Inr u, s') \<Rightarrow> setup_steps env steps s')"

text \<open>
  \<^verbatim>\<open>handleProjectSetup\<close> creates the project directory, changes the process into it and
  makes it \<open>currentDirectory\<close> for the rest of the session, then runs the steps.
\<close>

definition handleProjectSetup ::
    "env \<Rightarrow> project_setup \<Rightarrow> world \<Rightarrow> (error + unit) \<times> world" where
  "handleProjectSetup env setup s =
     (let s0 = console (''Setting up '' @ template (ps_projectType setup) @ '' project: ''
                          @ template (ps_name setup)) s;
          tried =
            (if \<not> truthy (ps_path setup) \<and> ps_name setup = None then
               (Inl (TypeError ''The path argument must be of type string''), s0)
             else
               (let projectPath =
                      resolveProjectPath (or_else (ps_path setup) (template (ps_name setup))) s0
                in case fs_mkdir projectPath s0 of
                     Inl e \<Rightarrow> (Inl e, s0)
                   | Inr s1 \<Rightarrow>
                       (case chdir projectPath s1 of
                          Inl e \<Rightarrow> (Inl e, s1)
                        | Inr s2 \<Rightarrow>
                            (case setup_steps env (ps_steps setup)
                                    (s2\<lparr>currentDirectory := projectPath\<rparr>) of
                               (Inl e, s3) \<Rightarrow> (Inl e, s3)
                             | (Inr u, s3) \<Rightarrow>
                                 (Inr (),
                                  console (''Project setup complete: '' @ template (ps_name setup))
                                    s3)))))
      in case tried of
           (Inl e, s') \<Rightarrow> (Inl e, console (''Project setup error: '' @ message e) s')
         | (Inr u, s') \<Rightarrow> (Inr u, s'))"

record deploy_step =
  ds_type :: string
  ds_command :: "string option"
  ds_path :: "string option"
  ds_content :: "string option"

record deployment =
  platform :: "string option"
  dp_steps :: "deploy_step list"

text \<open>\<^verbatim>\<open>execPromise(step.command)\<close>: without a command \<^verbatim>\<open>exec\<close> rejects its argument.\<close>

definition exec_step :: "env \<Rightarrow> string option \<Rightarrow> world \<Rightarrow> (error + unit) \<times> world" where
  "exec_step env cmd s =
     (case cmd of
        None \<Rightarrow> (Inl (TypeError ''The command argument must be of type string''), s)
      | Some c \<Rightarrow>
          (case execPromise env c s of (Inl e, s') \<Rightarrow> (Inl e, s') | (Inr out, s') \<Rightarrow> (Inr (), s')))"

definition deploy_step_run ::
    "env \<Rightarrow> string option \<Rightarrow> deploy_step \<Rightarrow> world \<Rightarrow> (error + unit) \<times> world" where
  "deploy_step_run env target step s =
     (if ds_type step = ''build'' then
        exec_step env (ds_command step) (console ''Building for deployment...'' s)
      else if ds_type step = ''config'' then
        (let s1 = console ''Configuring deployment...'' s
         in if truthy (ds_path step) \<and> truthy (ds_content step) then
              (case fs_writeFile (template (ds_path step)) (ds_content step) s1 of
                 Inl e \<Rightarrow> (Inl e, s1)
               | Inr s2 \<Rightarrow> (Inr (), s2))
            else if truthy (ds_command step) then exec_step env (ds_command step) s1
            else (Inr (), s1))
      else if ds_type step = ''upload'' then
        exec_step env (ds_command step) (console (''Uploading to '' @ template target @ ''...'') s)
      else if ds_type step = ''invoke'' then
        exec_step env (ds_command step) (console ''Invoking deployment command...'' s)
      else (Inr (), console (''Unsupported deployment step: '' @ ds_type step) s))"

fun deploy_steps ::
    "env \<Rightarrow> string option \<Rightarrow> deploy_step list \<Rightarrow> world \<Rightarrow> (error + unit) \<times> world" where
  "deploy_steps env target [] s = (Inr (), s)"
| "deploy_steps env target (step # steps) s =
     (case deploy_step_run env target step s of
        (Inl e, s') \<Rightarrow> (Inl e, s')
      | (Inr u, s') \<Rightarrow> deploy_steps env target steps s')"

definition handleDeployment :: "env \<Rightarrow> deployment \<Rightarrow> world \<Rightarrow> (error + unit) \<times> world" where
  "handleDeployment env dep s =
     (case deploy_steps env (platform dep) (dp_steps dep)
             (console (''Deploying to '' @ template (platform dep) @ ''...'') s) of
        (Inl e, s') \<Rightarrow> (Inl e, console (''Deployment error: '' @ message e) s')
      | (Inr u, s') \<Rightarrow>
          (Inr (), console (''Deployment to '' @ template (platform dep) @ '' complete!'') s'))"

section \<open>The plan dispatcher\<close>

text \<open>
  Decimal digits of a number, for \<^verbatim>\<open>`${uptime} seconds`\<close>. The uptime is
  \<^verbatim>\<open>Math.floor((new Date() - startTime) / 1000)\<close>, negative when the clock has been set
  back since the start.
\<close>

fun decimal :: "nat \<Rightarrow> string" where
  "decimal n =
     (if n < 10 then [char_of (48 + n)] else decimal (n div 10) @ [char_of (48 + n mod 10)])"

definition decimal_int :: "int \<Rightarrow> string" where
  "decimal_int i = (if i < 0 then ''-'' @ decimal (nat (- i)) else decimal (nat i))"

definition listProcesses :: "world \<Rightarrow> (string \<times> string \<times> string \<times> string) list" where
  "listProcesses s =
     map (\<lambda>(nm, details).
            (nm, command details,
             decimal_int ((int (clock s) - int (startTime details)) div 1000) @ '' seconds'',
             or_else (logFile details) ''N/A''))
       (runningProcesses s)"

text \<open>
  An action of a plan, by its \<^verbatim>\<open>type\<close>; a process operation also by its \<^verbatim>\<open>action\<close>, with
  the fields that action reads. \<open>Process_other\<close> is a process operation whose action is
  none of the three (the inner \<^verbatim>\<open>switch\<close> has no default), \<open>Unknown\<close> an action of
  any other type.
\<close>

datatype action =
    Project_setup project_setup
  | File_operation file_operation
  | Package_operation package_operation
  | Process_start string "start_options option"
  | Process_stop string
  | Process_list
  | Process_other
  | Database_operation database_operation
  | Git_operation git_operation
  | Deploy_operation deployment
  | Unknown string

record plan =
  p_type :: string
  p_actions :: "action list"
  p_description :: string
  p_needsMonitoring :: bool

definition default_options :: start_options where
  "default_options = \<lparr>name = None, waitForExit = False, opt_cwd = None, opt_logFile = None\<rparr>"

text \<open>The body of the \<^verbatim>\<open>for\<close> loop of \<^verbatim>\<open>executeAICommand\<close>: one action, sent to its executor.\<close>

definition dispatch :: "env \<Rightarrow> action \<Rightarrow> world \<Rightarrow> (error + unit) \<times> world" where
  "dispatch env a s =
     (case a of
        Project_setup setup \<Rightarrow> handleProjectSetup env setup s
      | File_operation operation \<Rightarrow>
          (case performFileOperation operation s of
             (Inl e, s') \<Rightarrow> (Inl e, s')
           | (Inr (Ok_content c), s') \<Rightarrow>
               (Inr (),
                if c \<noteq> [] then
                  console (replicate 50 CHR ''-'')
                    (console c (console (replicate 50 CHR ''-'') (console ''File contents:'' s')))
                else s')
           | (Inr r, s') \<Rightarrow> (Inr (), s'))
      | Package_operation operation \<Rightarrow>
          (case handlePackageOperation env operation s of
             (Inl e, s') \<Rightarrow> (Inl e, s') | (Inr r, s') \<Rightarrow> (Inr (), s'))
      | Process_start cmd opts \<Rightarrow>
          (case startProcess env cmd (case opts of None \<Rightarrow> default_options | Some v \<Rightarrow> v) s of
             (Inl e, s') \<Rightarrow> (Inl e, s') | (Inr r, s') \<Rightarrow> (Inr (), s'))
      | Process_stop nm \<Rightarrow> (Inr (), snd (stopProcess env nm s))
      | Process_list \<Rightarrow>
          (Inr (),
           console (concat (map (\<lambda>(nm, c, u, l). nm @ '' | '' @ c @ '' | '' @ u @ '' | '' @ l @ ''; '')
                              (listProcesses s))) s)
      | Process_other \<Rightarrow> (Inr (), s)
      | Database_operation operation \<Rightarrow>
          (case handleDatabaseOperation env operation s of
             (Inl e, s') \<Rightarrow> (Inl e, s') | (Inr r, s') \<Rightarrow> (Inr (), s'))
      | Git_operation operation \<Rightarrow>
          (case handleGitOperation env operation s of
             (Inl e, s') \<Rightarrow> (Inl e, s') | (Inr r, s') \<Rightarrow> (Inr (), s'))
      | Deploy_operation dep \<Rightarrow> handleDeployment env dep s
      | Unknown ty \<Rightarrow> (Inr (), console (''Unsupported action type: '' @ ty) s))"

text \<open>The loop itself: in array order, until an executor throws.\<close>

fun run_actions :: "env \<Rightarrow> action list \<Rightarrow> world \<Rightarrow> (error + unit) \<times> world" where
  "run_actions env [] s = (Inr (), s)"
| "run_actions env (a # as) s =
     (case dispatch env a s of
        (Inl e, s') \<Rightarrow> (Inl e, s')
      | (Inr u, s') \<Rightarrow> run_actions env as s')"

text \<open>
  \<^verbatim>\<open>executeAICommand\<close> from the parsed plan on: the command is reported as parsed and
  recorded in the history (\<open>remember\<close>), then come the loop, the monitoring notice and
  \<^verbatim>\<open>true\<close>; the \<^verbatim>\<open>catch\<close> reports the error and returns \<^verbatim>\<open>false\<close>.
\<close>

definition remember :: "string \<Rightarrow> plan \<Rightarrow> world \<Rightarrow> world" where
  "remember userCommand pl s =
     (let s1 = console (''Command parsed: '' @ p_description pl) s
      in s1\<lparr>history := history s1 @
              [\<lparr>h_command = userCommand, h_timestamp = clock s1, h_type = p_type pl,
                h_description = p_description pl\<rparr>]\<rparr>)"

definition execute_plan :: "env \<Rightarrow> string \<Rightarrow> plan \<Rightarrow> world \<Rightarrow> bool \<times> world" where
  "execute_plan env userCommand pl s =
     (case run_actions env (p_actions pl) (remember userCommand pl s) of
        (Inl e, s3) \<Rightarrow> (False, console (''Error: '' @ message e) s3)
      | (Inr u, s3) \<Rightarrow>
          (True, if p_needsMonitoring pl then console ''Setting up monitoring...'' s3 else s3))"

section \<open>Leaving the shell\<close>

text \<open>
  The three loops of the \<^verbatim>\<open>exit\<close> command in \<^verbatim>\<open>main\<close>. The first runs over the names in
  the process registry; \<^verbatim>\<open>stopProcess\<close> removes at most the entry the loop is at, so
  the loop visits the names the registry held at the start. Neither \<^verbatim>\<open>watcher.close()\<close>
  nor \<^verbatim>\<open>connection.close()\<close> is inside a \<^verbatim>\<open>try\<close>: an error that \<^verbatim>\<open>watcher.close()\<close> throws,
  or that the awaited \<^verbatim>\<open>connection.close()\<close> fails with, leaves \<^verbatim>\<open>main\<close>. The result of
  \<^verbatim>\<open>watcher.close()\<close> is not awaited, so \<open>watcher_close\<close> stands for an error thrown by
  the call itself, not for a promise that is rejected later.
\<close>

fun stop_all :: "env \<Rightarrow> string list \<Rightarrow> world \<Rightarrow> world" where
  "stop_all env [] s = s"
| "stop_all env (nm # nms) s =
     stop_all env nms (snd (stopProcess env nm (console (''Stopping process: '' @ nm) s)))"

fun close_watchers :: "env \<Rightarrow> (string \<times> nat) list \<Rightarrow> world \<Rightarrow> (error + unit) \<times> world" where
  "close_watchers env [] s = (Inr (), s)"
| "close_watchers env ((p, w) # ws) s =
     (let s1 = emit (WatchClose w) (console (''Stopping file watcher for: '' @ p) s)
      in case watcher_close env w of
           Some err \<Rightarrow> (Inl (Error err), s1)
         | None \<Rightarrow> close_watchers env ws s1)"

fun close_databases :: "env \<Rightarrow> (string \<times> nat) list \<Rightarrow> world \<Rightarrow> (error + unit) \<times> world" where
  "close_databases env [] s = (Inr (), s)"
| "close_databases env ((cs, c) # cs') s =
     (let s1 = emit (DbClose c) (console (''Closing database connection: '' @ cs) s)
      in case db_close env c of
           Some err \<Rightarrow> (Inl (Error err), s1)
         | None \<Rightarrow> close_databases env cs' s1)"

definition main_exit :: "env \<Rightarrow> world \<Rightarrow> (error + unit) \<times> world" where
  "main_exit env s =
     (let s1 = console ''Cleaning up before exit...'' s;
          s2 = stop_all env (map fst (runningProcesses s1)) s1
      in case close_watchers env (fileWatchers s2) s2 of
           (Inl e, s3) \<Rightarrow> (Inl e, s3)
         | (Inr u, s3) \<Rightarrow>
             (case close_databases env (databases s3) s3 of
                (Inl e, s4) \<Rightarrow> (Inl e, s4)
              | (Inr u', s4) \<Rightarrow>
                  (Inr (), console ''Thank you for using Super AI Agent! Goodbye.'' s4)))"



fun closed_connections :: "event list \<Rightarrow> nat list" where
  "closed_connections [] = []"
| "closed_connections (DbClose c # es) = c # closed_connections es"
| "closed_connections (e # es) = closed_connections es"


section \<open>From the answer of the model to a plan\<close>

text \<open>
  \<^verbatim>\<open>JSON.parse\<close>. A value of JSON; a number keeps its text. Strings are 8-bit here, so
  an escape \<^verbatim>\<open>\uXXXX\<close> is read when it names a character below 256. The parser
  counts down a bound on the nesting of its calls, which the length of the text
  provides.
\<close>

datatype json =
    JNull
  | JBool bool
  | JNumber string
  | JString string
  | JArray "json list"
  | JObject "(string \<times> json) list"

definition json_ws :: "char \<Rightarrow> bool" where
  "json_ws c = (c \<in> set [CHR 0x20, CHR 0x09, CHR 0x0A, CHR 0x0D])"

definition skip_ws :: "string \<Rightarrow> string" where
  "skip_ws = dropWhile json_ws"

definition is_digit :: "char \<Rightarrow> bool" where
  "is_digit c = (48 \<le> (of_char c :: nat) \<and> (of_char c :: nat) \<le> 57)"

definition hex_value :: "char \<Rightarrow> nat option" where
  "hex_value c =
     (let n = (of_char c :: nat)
      in if 48 \<le> n \<and> n \<le> 57 then Some (n - 48)
         else if 65 \<le> n \<and> n \<le> 70 then Some (n - 55)
         else if 97 \<le> n \<and> n \<le> 102 then Some (n - 87)
         else None)"

definition unescape :: "char \<Rightarrow> char option" where
  "unescape e =
     (if e = CHR 0x22 \<or> e = CHR 0x5C \<or> e = CHR ''/'' then Some e
      else if e = CHR ''b'' then Some (CHR 0x08)
      else if e = CHR ''f'' then Some (CHR 0x0C)
      else if e = CHR ''n'' then Some (CHR 0x0A)
      else if e = CHR ''r'' then Some (CHR 0x0D)
      else if e = CHR ''t'' then Some (CHR 0x09)
      else None)"

definition push :: "char \<Rightarrow> (string \<times> string) option \<Rightarrow> (string \<times> string) option" where
  "push c r = (case r of None \<Rightarrow> None | Some (str, rest) \<Rightarrow> Some (c # str, rest))"

text \<open>The characters of a string after its opening quote, up to the closing one.\<close>

fun parse_chars :: "string \<Rightarrow> (string \<times> string) option" where
  "parse_chars [] = None"
| "parse_chars (c # cs) =
     (if c = CHR 0x22 then Some ([], cs)
      else if c = CHR 0x5C then
        (case cs of
           [] \<Rightarrow> None
         | e # r \<Rightarrow>
             if e = CHR ''u'' then
               (case r of
                  h1 # h2 # h3 # h4 # r' \<Rightarrow>
                    (case (hex_value h1, hex_value h2, hex_value h3, hex_value h4) of
                       (Some a, Some b, Some x, Some y) \<Rightarrow>
                         if a = 0 \<and> b = 0 then push (char_of (16 * x + y)) (parse_chars r') else None
                     | _ \<Rightarrow> None)
                | _ \<Rightarrow> None)
             else (case unescape e of None \<Rightarrow> None | Some ch \<Rightarrow> push ch (parse_chars r)))
      else if (of_char c :: nat) < 32 then None
      else push c (parse_chars cs))"

definition digits1 :: "string \<Rightarrow> (string \<times> string) option" where
  "digits1 cs = (if takeWhile is_digit cs = [] then None
                 else Some (takeWhile is_digit cs, dropWhile is_digit cs))"

text \<open>\<^verbatim>\<open>-? (0 | [1-9][0-9]*) (. [0-9]+)? ([eE] [+-]? [0-9]+)?\<close>\<close>

definition parse_number :: "string \<Rightarrow> (string \<times> string) option" where
  "parse_number cs =
     (let (sign, r0) = (case cs of c # r \<Rightarrow> if c = CHR ''-'' then ([c], r) else ([], cs) | [] \<Rightarrow> ([], cs));
          whole = (case r0 of
                     c # r \<Rightarrow> if c = CHR ''0'' then Some ([c], r) else digits1 r0
                   | [] \<Rightarrow> None)
      in case whole of
           None \<Rightarrow> None
         | Some (w, r1) \<Rightarrow>
             (let frac = (case r1 of
                            c # r \<Rightarrow>
                              if c = CHR ''.'' then
                                (case digits1 r of None \<Rightarrow> None | Some (ds, r') \<Rightarrow> Some (c # ds, r'))
                              else Some ([], r1)
                          | [] \<Rightarrow> Some ([], r1))
              in case frac of
                   None \<Rightarrow> None
                 | Some (f, r2) \<Rightarrow>
                     (let ex = (case r2 of
                                  c # r \<Rightarrow>
                                    if c = CHR ''e'' \<or> c = CHR ''E'' then
                                      (let (sg, r') = (case r of
                                                         d # r'' \<Rightarrow>
                                                           if d = CHR ''+'' \<or> d = CHR ''-''
                                                           then ([d], r'') else ([], r)
                                                       | [] \<Rightarrow> ([], r))
                                       in case digits1 r' of
                                            None \<Rightarrow> None
                                          | Some (ds, r3) \<Rightarrow> Some (c # sg @ ds, r3))
                                    else Some ([], r2)
                                | [] \<Rightarrow> Some ([], r2))
                      in case ex of
                           None \<Rightarrow> None
                         | Some (e, r3) \<Rightarrow> Some (sign @ w @ f @ e, r3))))"

fun parse_value :: "nat \<Rightarrow> string \<Rightarrow> (json \<times> string) option"
  and parse_elements :: "nat \<Rightarrow> string \<Rightarrow> (json list \<times> string) option"
  and parse_members :: "nat \<Rightarrow> string \<Rightarrow> ((string \<times> json) list \<times> string) option"
where
  "parse_value 0 cs = None"
| "parse_value (Suc n) cs =
     (case skip_ws cs of
        [] \<Rightarrow> None
      | c # r \<Rightarrow>
          if c = CHR ''{'' then
            (if take 1 (skip_ws r) = ''}'' then Some (JObject [], drop 1 (skip_ws r))
             else (case parse_members n r of
                     None \<Rightarrow> None | Some (ms, r') \<Rightarrow> Some (JObject ms, r')))
          else if c = CHR ''['' then
            (if take 1 (skip_ws r) = '']'' then Some (JArray [], drop 1 (skip_ws r))
             else (case parse_elements n r of
                     None \<Rightarrow> None | Some (vs, r') \<Rightarrow> Some (JArray vs, r')))
          else if c = CHR 0x22 then
            (case parse_chars r of None \<Rightarrow> None | Some (str, r') \<Rightarrow> Some (JString str, r'))
          else if take 4 (c # r) = ''true'' then Some (JBool True, drop 3 r)
          else if take 5 (c # r) = ''false'' then Some (JBool False, drop 4 r)
          else if take 4 (c # r) = ''null'' then Some (JNull, drop 3 r)
          else (case parse_number (c # r) of
                  None \<Rightarrow> None | Some (lexeme, r') \<Rightarrow> Some (JNumber lexeme, r')))"
| "parse_elements 0 cs = None"
| "parse_elements (Suc n) cs =
     (case parse_value n cs of
        None \<Rightarrow> None
      | Some (v, r) \<Rightarrow>
          (case skip_ws r of
             [] \<Rightarrow> None
           | c # r' \<Rightarrow>
               if c = CHR '','' then
                 (case parse_elements n r' of
                    None \<Rightarrow> None | Some (vs, r'') \<Rightarrow> Some (v # vs, r''))
               else if c = CHR '']'' then Some ([v], r')
               else None))"
| "parse_members 0 cs = None"
| "parse_members (Suc n) cs =
     (case skip_ws cs of
        [] \<Rightarrow> None
      | q # r \<Rightarrow>
          if q \<noteq> CHR 0x22 then None
          else
            (case parse_chars r of
               None \<Rightarrow> None
             | Some (k, r1) \<Rightarrow>
                 (case skip_ws r1 of
                    [] \<Rightarrow> None
                  | colon # r2 \<Rightarrow>
                      if colon \<noteq> CHR '':'' then None
                      else
                        (case parse_value n r2 of
                           None \<Rightarrow> None
                         | Some (v, r3) \<Rightarrow>
                             (case skip_ws r3 of
                                [] \<Rightarrow> None
                              | c # r4 \<Rightarrow>
                                  if c = CHR '','' then
                                    (case parse_members n r4 of
                                       None \<Rightarrow> None
                                     | Some (ms, r5) \<Rightarrow> Some ((k, v) # ms, r5))
                                  else if c = CHR ''}'' then Some ([(k, v)], r4)
                                  else None)))))"

definition JSON_parse :: "string \<Rightarrow> error + json" where
  "JSON_parse text =
     (case parse_value (Suc (length text)) text of
        None \<Rightarrow> Inl (SyntaxError ''Unexpected token in JSON'')
      | Some (v, rest) \<Rightarrow>
          if skip_ws rest = [] then Inr v else Inl (SyntaxError ''Unexpected token in JSON''))"

text \<open>
  \<^verbatim>\<open>.replace(/```json\s?/g, '')\<close> and \<^verbatim>\<open>.replace(/```\s?/g, '')\<close>: every occurrence of the
  marker goes, with one white-space character after it if there is one. The number
  counts the characters of a match still to drop.
\<close>

fun remove_marker :: "string \<Rightarrow> nat \<Rightarrow> string \<Rightarrow> string" where
  "remove_marker pat k [] = []"
| "remove_marker pat (Suc k) (c # cs) = remove_marker pat k cs"
| "remove_marker pat 0 (c # cs) =
     (if pat \<noteq> [] \<and> take (length pat) (c # cs) = pat then
        remove_marker pat
          (length pat - 1 + (if take 1 (drop (length pat) (c # cs)) \<noteq> []
                                \<and> is_space (hd (drop (length pat) (c # cs))) then 1 else 0))
          cs
      else c # remove_marker pat 0 cs)"

definition is_line_terminator :: "char \<Rightarrow> bool" where
  "is_line_terminator c = (c = CHR 0x0A \<or> c = CHR 0x0D)"

text \<open>
  \<^verbatim>\<open>.replace(/\/\/.+/g, '')\<close>: two slashes and at least one more character of the
  line go, up to the end of the line. The flag says that a match is being dropped.
\<close>

definition starts_line_comment :: "string \<Rightarrow> bool" where
  "starts_line_comment str =
     (take 2 str = ''//'' \<and> take 1 (drop 2 str) \<noteq> []
      \<and> \<not> is_line_terminator (hd (drop 2 str)))"

fun remove_line_comments :: "bool \<Rightarrow> string \<Rightarrow> string" where
  "remove_line_comments dropping [] = []"
| "remove_line_comments True (c # cs) =
     (if is_line_terminator c then c # remove_line_comments False cs
      else remove_line_comments True cs)"
| "remove_line_comments False (c # cs) =
     (if starts_line_comment (c # cs) then remove_line_comments True cs
      else c # remove_line_comments False cs)"

text \<open>
  \<^verbatim>\<open>.replace(/\/\*[\s\S]*?\*\//g, '')\<close>: from \<^verbatim>\<open>/*\<close> to the nearest \<^verbatim>\<open>*/\<close> after it.
\<close>

fun find_close :: "string \<Rightarrow> nat option" where
  "find_close (a # b # r) =
     (if a = CHR ''*'' \<and> b = CHR ''/'' then Some 0
      else (case find_close (b # r) of None \<Rightarrow> None | Some i \<Rightarrow> Some (Suc i)))"
| "find_close _ = None"

fun remove_block_comments :: "nat \<Rightarrow> string \<Rightarrow> string" where
  "remove_block_comments k [] = []"
| "remove_block_comments (Suc k) (c # cs) = remove_block_comments k cs"
| "remove_block_comments 0 (c # cs) =
     (if c = CHR ''/'' \<and> take 1 cs = ''*'' then
        (case find_close (drop 1 cs) of
           None \<Rightarrow> c # remove_block_comments 0 cs
         | Some i \<Rightarrow> remove_block_comments (i + 3) cs)
      else c # remove_block_comments 0 cs)"

text \<open>
  \<open>cleanJson\<close>. The third \<^verbatim>\<open>replace\<close> removes the zero-width characters U+200B to
  U+200D and U+FEFF, none of which is an 8-bit character, so it changes nothing here.
\<close>

definition cleanJson :: "string \<Rightarrow> string" where
  "cleanJson planText =
     remove_block_comments 0
       (remove_line_comments False
          (remove_marker ''```'' 0 (remove_marker ''```json'' 0 planText)))"

text \<open>\<^verbatim>\<open>s.substring(a, b)\<close> swaps its arguments when the first is the larger.\<close>

definition substring :: "nat \<Rightarrow> nat \<Rightarrow> string \<Rightarrow> string" where
  "substring a b str = take (max a b - min a b) (drop (min a b) str)"

definition indexOf :: "char \<Rightarrow> string \<Rightarrow> nat" where
  "indexOf c str = length (takeWhile (\<lambda>x. x \<noteq> c) str)"

definition lastIndexOf :: "char \<Rightarrow> string \<Rightarrow> nat" where
  "lastIndexOf c str = length str - 1 - length (takeWhile (\<lambda>x. x \<noteq> c) (rev str))"

text \<open>
  The text of the answer becomes a plan: \<^verbatim>\<open>JSON.parse(cleanJson)\<close> first, whose result
  is then replaced by that of parsing the answer itself from its first \<^verbatim>\<open>{\<close> to its last
  \<^verbatim>\<open>}\<close> (or all of it, when it has no braces). An error of either call is thrown.
\<close>

definition parse_plan_text :: "string \<Rightarrow> error + json" where
  "parse_plan_text answer =
     (let planText = trim answer
      in case JSON_parse (cleanJson planText) of
           Inl e \<Rightarrow> Inl e
         | Inr first \<Rightarrow>
             if CHR ''{'' \<in> set planText \<and> CHR ''}'' \<in> set planText then
               JSON_parse (substring (indexOf CHR ''{'' planText)
                             (lastIndexOf CHR ''}'' planText + 1) planText)
             else JSON_parse planText)"

text \<open>
  \<^verbatim>\<open>executeAICommand\<close>. The prompt is a fixed text around the command, so the model is
  asked with the command. \<open>view\<close> reads the parsed JSON value as a plan of the shape
  the dispatcher expects; it gives \<open>None\<close> for a value that has no such shape, where
  the code throws a \<^verbatim>\<open>TypeError\<close> when it reads \<^verbatim>\<open>plan.context.description\<close>, before the
  history entry. Every error on the way is caught, reported, and gives \<^verbatim>\<open>false\<close>.
\<close>

definition executeAICommand ::
    "env \<Rightarrow> (json \<Rightarrow> plan option) \<Rightarrow> string \<Rightarrow> world \<Rightarrow> bool \<times> world" where
  "executeAICommand env view userCommand s =
     (case generateContent env userCommand of
        Inl err \<Rightarrow> (False, console (''Error: '' @ err) s)
      | Inr answer \<Rightarrow>
          (case parse_plan_text answer of
             Inl e \<Rightarrow> (False, console (''Error: '' @ message e) s)
           | Inr j \<Rightarrow>
               (case view j of
                  None \<Rightarrow>
                    (False,
                     console (''Error: '' @ message
                        (TypeError ''Cannot read properties of undefined (reading 'description')''))
                       s)
                | Some pl \<Rightarrow> execute_plan env userCommand pl s)))"

section \<open>Concrete runs\<close>

text \<open>
  A quiet environment: every signal is delivered, every shell command succeeds and
  prints nothing, nothing fails to close; and the state of a fresh session started in
  \<^verbatim>\<open>/w\<close>, as the initialiser of \<^verbatim>\<open>projectState\<close> builds it.
\<close>

definition quiet_env :: env where
  "quiet_env =
     \<lparr>kill_outcome = (\<lambda>h. Delivered),
      shell = (\<lambda>cmd dir fs. (Inr [], fs)),
      watcher_close = (\<lambda>w. None),
      db_connect = (\<lambda>c. None),
      db_close = (\<lambda>c. None),
      db_call = (\<lambda>a c. Inr []),
      generateContent = (\<lambda>p. Inr [])\<rparr>"

definition initial_world :: world where
  "initial_world =
     \<lparr>cwd = ''/w'', currentDirectory = ''/w'', runningProcesses = [], history = [],
      fileWatchers = [], databases = [], files = [([''w''], Dir)], clock = 0,
      next_handle = 0, events = []\<rparr>"

text \<open>A session in which one child, handle 7, runs under the name \<^verbatim>\<open>srv\<close>.\<close>

definition srv_entry :: ProcessEntry where
  "srv_entry = \<lparr>process = 7, command = ''node server.js'', startTime = 0, logFile = None\<rparr>"

definition srv_world :: world where
  "srv_world = initial_world\<lparr>runningProcesses := [(''srv'', srv_entry)], next_handle := 8\<rparr>"

text \<open>The file operation \<^verbatim>\<open>{action: "watch", path: "src"}\<close>.\<close>

definition watch_src :: file_operation where
  "watch_src = \<lparr>fo_action = ''watch'', fo_path = ''src'', fo_content = None, fo_newPath = None,
                 fo_recursive = False\<rparr>"

text \<open>
  An environment in which every \<^verbatim>\<open>kill()\<close> throws, as \<^verbatim>\<open>ChildProcess.kill\<close> does where
  the platform does not support the signal.
\<close>

definition throwing_env :: env where
  "throwing_env = quiet_env\<lparr>kill_outcome := (\<lambda>h. KillThrows ''kill ENOSYS'')\<rparr>"

text \<open>A sequence of \<^verbatim>\<open>startProcess\<close> calls, each on the state the one before left.\<close>

fun start_all :: "env \<Rightarrow> (string \<times> start_options) list \<Rightarrow> world \<Rightarrow> world" where
  "start_all env [] s = s"
| "start_all env ((cmd, opts) # calls) s = start_all env calls (snd (startProcess env cmd opts s))"

text \<open>
  The default process name as the specification words it: the first token of the
  command when it is separated at white space.
\<close>

definition first_whitespace_token :: "string \<Rightarrow> string" where
  "first_whitespace_token cmd = takeWhile (\<lambda>c. \<not> is_space c) (dropWhile is_space cmd)"

text \<open>The database operation \<^verbatim>\<open>{dbType: "mysql", action: "query", ...}\<close>.\<close>

definition mysql_query :: database_operation where
  "mysql_query = \<lparr>dbType = ''mysql'', dbo_action = ''query'',
                   connectionString = ''mysql://localhost/app'', collection = ''users''\<rparr>"

text \<open>
  A session in \<^verbatim>\<open>/w\<close> with a subdirectory \<^verbatim>\<open>app\<close>, an environment in which every shell
  command fails, and the package operation \<^verbatim>\<open>npm install left-pad\<close> in \<^verbatim>\<open>app\<close>.
\<close>

definition app_world :: world where
  "app_world = initial_world\<lparr>files := [([''w''], Dir), ([''w'', ''app''], Dir)]\<rparr>"

definition failing_shell_env :: env where
  "failing_shell_env = quiet_env\<lparr>shell := (\<lambda>cmd dir fs. (Inl ''Command failed: exit code 1'', fs))\<rparr>"

definition install_in_app :: package_operation where
  "install_in_app = \<lparr>po_manager = ''npm'', po_action = ''install'', po_packages = Some [''left-pad''],
                      po_options = None, po_directory = Some ''app''\<rparr>"

text \<open>
  A plan that sets up the project \<^verbatim>\<open>demo\<close> (the session moves into \<^verbatim>\<open>/w/demo\<close>) and then
  removes that directory, the state it leaves, and the package operation
  \<^verbatim>\<open>npm install left-pad\<close> with the directory \<^verbatim>\<open>/w\<close>.
\<close>

definition setup_demo :: action where
  "setup_demo = Project_setup \<lparr>ps_projectType = Some ''node'', ps_name = Some ''demo'',
                                ps_path = None, ps_steps = []\<rparr>"

definition remove_demo :: action where
  "remove_demo = File_operation \<lparr>fo_action = ''rmdir'', fo_path = ''/w/demo'', fo_content = None,
                                  fo_newPath = None, fo_recursive = True\<rparr>"

definition install_from_w :: package_operation where
  "install_from_w = \<lparr>po_manager = ''npm'', po_action = ''install'', po_packages = Some [''left-pad''],
                      po_options = None, po_directory = Some ''/w''\<rparr>"

definition demo_gone_world :: world where
  "demo_gone_world = snd (run_actions quiet_env [setup_demo, remove_demo] initial_world)"

text \<open>
  A plan of three file operations: write \<^verbatim>\<open>a.txt\<close>, read a file that does not exist,
  write \<^verbatim>\<open>b.txt\<close>.
\<close>

definition write_a :: action where
  "write_a = File_operation \<lparr>fo_action = ''write'', fo_path = ''a.txt'', fo_content = Some ''hi'',
                              fo_newPath = None, fo_recursive = False\<rparr>"

definition read_missing :: action where
  "read_missing = File_operation \<lparr>fo_action = ''read'', fo_path = ''missing.txt'', fo_content = None,
                                   fo_newPath = None, fo_recursive = False\<rparr>"

definition write_b :: action where
  "write_b = File_operation \<lparr>fo_action = ''write'', fo_path = ''b.txt'', fo_content = Some ''x'',
                              fo_newPath = None, fo_recursive = False\<rparr>"

definition three_steps :: plan where
  "three_steps = \<lparr>p_type = ''file'', p_actions = [write_a, read_missing, write_b],
                   p_description = ''write, read, write'', p_needsMonitoring = False\<rparr>"

text \<open>
  The shutdown scenario: one tracked process, one watcher and one database connection;
  and an environment in which closing a watcher fails.
\<close>

definition busy_world :: world where
  "busy_world = initial_world
     \<lparr>runningProcesses := [(''srv'', srv_entry)], fileWatchers := [(''/w/src'', 8)],
      databases := [(''mongodb://localhost/app'', 9)], next_handle := 10\<rparr>"

definition close_failing_env :: env where
  "close_failing_env = quiet_env\<lparr>watcher_close := (\<lambda>w. Some ''watcher already closed'')\<rparr>"

text \<open>
  Two answers of the model that carry the same plan: one with a sentence before the
  object, one inside a code fence; and the plan as a JSON value.
\<close>

definition prose_answer :: string where
  \<open>prose_answer =
     ''Here is the plan: {"type":"file","actions":[],"context":{"description":"list files"}}''\<close>

definition fenced_answer :: string where
  \<open>fenced_answer =
     ''```json'' @ [CHR 0x0A]
       @ ''{"type":"file","actions":[],"context":{"description":"list files"}}'' @ [CHR 0x0A]
       @ ''```''\<close>

text \<open>The same plan once more, with a comment after its first member.\<close>

definition commented_answer :: string where
  \<open>commented_answer =
     ''{"type":"file", // the kind'' @ [CHR 0x0A]
       @ ''"actions":[],"context":{"description":"list files"}}''\<close>

definition listing_plan :: json where
  "listing_plan =
     JObject [(''type'', JString ''file''), (''actions'', JArray []),
              (''context'', JObject [(''description'', JString ''list files'')])]"

section \<open>Facts about the registries\<close>

lemma split_first: "\<exists>ws. split c str = takeWhile (\<lambda>x. x \<noteq> c) str # ws"
  by (induction str) (auto split: list.splits)

lemma processName_of_default:
  "\<not> truthy nm \<Longrightarrow> processName_of nm cmd = takeWhile (\<lambda>x. x \<noteq> CHR '' '') cmd"
  using split_first [of "CHR '' ''" cmd]
  by (auto simp: processName_of_def)

lemma execPromise_events:
  "\<exists>es. events (snd (execPromise env cmd s)) = events s @ es"
  by (auto simp: execPromise_def emit_def Let_def split: prod.splits sum.splits)

lemma launch_events_prefix:
  "\<exists>es. events (snd (launch env cmd opts nm s)) = events s @ es"
  using execPromise_events [of env cmd s]
  by (auto simp: launch_def console_def emit_def Let_def split: prod.splits sum.splits list.splits)

lemma stopProcess_distinct:
  "distinct (map fst (runningProcesses s)) \<Longrightarrow>
     distinct (map fst (runningProcesses (snd (stopProcess env nm s))))"
  by (auto simp: stopProcess_def console_def emit_def distinct_delete
           split: option.splits kill_result.splits)

lemma execPromise_registry:
  "runningProcesses (snd (execPromise env cmd s)) = runningProcesses s"
  by (auto simp: execPromise_def emit_def Let_def split: prod.splits sum.splits)

lemma launch_distinct:
  "distinct (map fst (runningProcesses s)) \<Longrightarrow>
     distinct (map fst (runningProcesses (snd (launch env cmd opts nm s))))"
  using execPromise_registry [of env cmd s]
  by (auto simp: launch_def console_def emit_def Let_def distinct_update
           split: prod.splits sum.splits list.splits)

lemma startProcess_distinct:
  "distinct (map fst (runningProcesses s)) \<Longrightarrow>
     distinct (map fst (runningProcesses (snd (startProcess env cmd opts s))))"
  by (simp add: startProcess_def Let_def launch_distinct stopProcess_distinct)

lemma start_all_distinct:
  "distinct (map fst (runningProcesses s)) \<Longrightarrow>
     distinct (map fst (runningProcesses (start_all env calls s)))"
  by (induction calls arbitrary: s) (auto simp: startProcess_distinct)

lemma entries_one:
  "distinct (map fst al) \<Longrightarrow> map_of al k = Some v \<Longrightarrow> length (filter (\<lambda>kv. fst kv = k) al) = 1"
proof (induction al)
  case Nil
  then show ?case by simp
next
  case (Cons a al)
  show ?case
  proof (cases "fst a = k")
    case True
    with Cons.prems have "k \<notin> fst ` set al" by auto
    then have "filter (\<lambda>kv. fst kv = k) al = []"
      by (auto simp: filter_empty_conv)
    with True show ?thesis by simp
  next
    case False
    with Cons show ?thesis by (cases a) auto
  qed
qed

lemma entries_at_most_one:
  "distinct (map fst al) \<Longrightarrow> length (filter (\<lambda>kv. fst kv = k) al) \<le> 1"
proof (cases "map_of al k")
  case None
  then have "k \<notin> fst ` set al" by (simp add: map_of_eq_None_iff)
  then have "filter (\<lambda>kv. fst kv = k) al = []" by (auto simp: filter_empty_conv)
  then show ?thesis by simp
next
  case (Some v)
  assume "distinct (map fst al)"
  from entries_one [OF this Some] show ?thesis by simp
qed

lemma launch_registers:
  "launch env cmd opts nm s = (Inr (Ok_processName nm'), s') \<Longrightarrow>
     nm' = nm \<and> map_of (runningProcesses s') nm
       = Some \<lparr>process = next_handle s, command = cmd, startTime = clock s,
               logFile = opt_logFile opts\<rparr>"
  by (auto simp: launch_def console_def emit_def Let_def update_conv'
           split: prod.splits sum.splits list.splits if_splits)

lemma stopProcess_frame:
  "next_handle (snd (stopProcess env nm s)) = next_handle s"
  "clock (snd (stopProcess env nm s)) = clock s"
  by (auto simp: stopProcess_def console_def emit_def split: option.splits kill_result.splits)

lemma startProcess_registers:
  assumes r: "fst (startProcess env cmd opts s) = Inr (Ok_processName n)"
  shows "n = processName_of (name opts) cmd
       \<and> map_of (runningProcesses (snd (startProcess env cmd opts s))) n
           = Some \<lparr>process = next_handle s, command = cmd, startTime = clock s,
                   logFile = opt_logFile opts\<rparr>"
proof -
  let ?nm = "processName_of (name opts) cmd"
  let ?s1 = "if map_of (runningProcesses s) ?nm \<noteq> None then snd (stopProcess env ?nm s) else s"
  have eq: "startProcess env cmd opts s = launch env cmd opts ?nm ?s1"
    by (simp add: startProcess_def Let_def)
  obtain s' where l: "launch env cmd opts ?nm ?s1 = (Inr (Ok_processName n), s')"
    using r eq by (cases "launch env cmd opts ?nm ?s1") auto
  have h: "next_handle ?s1 = next_handle s" "clock ?s1 = clock s"
    by (simp_all add: stopProcess_frame)
  from launch_registers [OF l] h eq l show ?thesis by auto
qed

lemma startProcess_after_stop:
  assumes old: "map_of (runningProcesses s) (processName_of (name opts) cmd) = Some old"
  shows "startProcess env cmd opts s
           = launch env cmd opts (processName_of (name opts) cmd)
               (snd (stopProcess env (processName_of (name opts) cmd) s))"
  using old by (simp add: startProcess_def Let_def)

lemma startProcess_signals_first:
  assumes old: "map_of (runningProcesses s) (processName_of (name opts) cmd) = Some old"
  shows "events (snd (startProcess env cmd opts s)) ! length (events s) = Kill (process old)"
proof -
  let ?nm = "processName_of (name opts) cmd"
  let ?s1 = "snd (stopProcess env ?nm s)"
  have k: "events ?s1 ! length (events s) = Kill (process old)"
    and len: "length (events s) < length (events ?s1)"
    using old by (auto simp: stopProcess_def console_def emit_def nth_append split: kill_result.splits)
  obtain es where "events (snd (launch env cmd opts ?nm ?s1)) = events ?s1 @ es"
    using launch_events_prefix by blast
  with k len show ?thesis
    by (simp add: startProcess_after_stop [OF old] nth_append)
qed

lemma stopProcess_removes:
  assumes "map_of (runningProcesses s) nm = Some old"
      and "kill_outcome env (process old) \<in> {Delivered, AlreadyExited}"
  shows "map_of (runningProcesses (snd (stopProcess env nm s))) nm = None"
  using assms
  by (auto simp: stopProcess_def console_def emit_def delete_conv split: kill_result.splits)

lemma launch_background:
  assumes "\<not> waitForExit opts" and "\<not> truthy (opt_logFile opts)"
      and "takeWhile (\<lambda>x. x \<noteq> CHR '' '') cmd \<noteq> []"
  shows "fst (launch env cmd opts nm s) = Inr (Ok_processName nm)"
  using assms split_first [of "CHR '' ''" cmd]
  by (auto simp: launch_def Let_def)

lemma startProcess_background:
  assumes "\<not> waitForExit opts" and "\<not> truthy (opt_logFile opts)"
      and "takeWhile (\<lambda>x. x \<noteq> CHR '' '') cmd \<noteq> []"
  shows "fst (startProcess env cmd opts s) = Inr (Ok_processName (processName_of (name opts) cmd))"
  using launch_background [OF assms] by (simp add: startProcess_def Let_def)

lemma watchFiles_has: "map_of (fileWatchers (watchFiles p s)) p \<noteq> None"
  by (auto simp: watchFiles_def console_def emit_def Let_def update_conv')

lemma watchFiles_again: "map_of (fileWatchers s) p \<noteq> None \<Longrightarrow> watchFiles p s = s"
  by (simp add: watchFiles_def)

lemma watchFiles_distinct:
  "distinct (map fst (fileWatchers s)) \<Longrightarrow> distinct (map fst (fileWatchers (watchFiles p s)))"
  by (auto simp: watchFiles_def console_def emit_def Let_def distinct_update)

lemma watchFiles_currentDirectory: "currentDirectory (watchFiles p s) = currentDirectory s"
  by (auto simp: watchFiles_def console_def emit_def Let_def)

lemma perform_watch:
  "fo_action operation = ''watch'' \<Longrightarrow>
     performFileOperation operation s
       = (Inr (Ok_message (''Watching: '' @ fo_path operation)),
          watchFiles (resolveProjectPath (fo_path operation) s) s)"
  by (simp add: performFileOperation_def fileOperation_body_def Let_def)

section \<open>Facts about the working directory\<close>

lemma fs_key_absolute: "isAbsolute p \<Longrightarrow> fs_key d p = fs_key d' p"
  by (simp add: fs_key_def)

lemma chdir_cases:
  "chdir p s = (if is_dir (files s) (fs_key (cwd s) p)
                then Inr (s\<lparr>cwd := ''/'' @ join ''/'' (fs_key (cwd s) p)\<rparr>)
                else Inl (Error (''ENOENT: no such file or directory, chdir '' @ p)))"
  by (simp add: chdir_def Let_def)

lemma chdir_frame:
  "chdir p s = Inr s' \<Longrightarrow> currentDirectory s' = currentDirectory s \<and> files s' = files s"
  by (auto simp: chdir_cases split: if_splits)

lemma execPromise_frame:
  "execPromise env cmd s = (r, s') \<Longrightarrow> cwd s' = cwd s \<and> currentDirectory s' = currentDirectory s"
  by (auto simp: execPromise_def emit_def Let_def split: prod.splits sum.splits)

lemma chdir_back:
  assumes "isAbsolute (currentDirectory s)"
      and "cwd s = ''/'' @ join ''/'' (fs_key (cwd s) (currentDirectory s))"
      and "currentDirectory t = currentDirectory s"
      and "is_dir (files t) (fs_key (cwd s) (currentDirectory s))"
  shows "chdir (currentDirectory t) t = Inr (t\<lparr>cwd := cwd s\<rparr>)"
  using assms fs_key_absolute [of "currentDirectory s" "cwd t" "cwd s"]
  by (simp add: chdir_cases)

lemma chdir_back_cwd:
  assumes "isAbsolute (currentDirectory s)"
      and "cwd s = ''/'' @ join ''/'' (fs_key (cwd s) (currentDirectory s))"
      and "currentDirectory t = currentDirectory s"
      and "chdir (currentDirectory t) t = Inr t'"
  shows "cwd t' = cwd s"
  using assms fs_key_absolute [of "currentDirectory s" "cwd t" "cwd s"]
  by (auto simp: chdir_cases split: if_splits)

text \<open>The state after the command of a package operation has run from \<open>s1\<close>.\<close>

lemma try_tail:
  assumes run: "(case execPromise env cmd s1 of
                   (Inl e, s2) \<Rightarrow> (Inl e, s2)
                 | (Inr out, s2) \<Rightarrow>
                     if b then (case chdir (currentDirectory s2) s2 of
                                  Inl e \<Rightarrow> (Inl e, s2)
                                | Inr s3 \<Rightarrow> (Inr (Ok_output out), s3))
                     else (Inr (Ok_output out), s2)) = (r, t)"
  shows "currentDirectory t = currentDirectory s1"
    and "\<not> b \<Longrightarrow> cwd t = cwd s1"
    and "b \<Longrightarrow> isAbsolute (currentDirectory s) \<Longrightarrow>
         cwd s = ''/'' @ join ''/'' (fs_key (cwd s) (currentDirectory s)) \<Longrightarrow>
         currentDirectory s1 = currentDirectory s \<Longrightarrow> r = Inr v \<Longrightarrow> cwd t = cwd s"
proof -
  obtain r2 s2 where ex: "execPromise env cmd s1 = (r2, s2)"
    by (cases "execPromise env cmd s1")
  note fr = execPromise_frame [OF ex]
  show "currentDirectory t = currentDirectory s1"
    using run fr by (auto simp: ex split: sum.splits if_splits dest: chdir_frame)
  show "\<not> b \<Longrightarrow> cwd t = cwd s1"
    using run fr by (auto simp: ex split: sum.splits)
  show "b \<Longrightarrow> isAbsolute (currentDirectory s) \<Longrightarrow>
         cwd s = ''/'' @ join ''/'' (fs_key (cwd s) (currentDirectory s)) \<Longrightarrow>
         currentDirectory s1 = currentDirectory s \<Longrightarrow> r = Inr v \<Longrightarrow> cwd t = cwd s"
    using run fr chdir_back_cwd [of s s2]
    by (auto simp: ex split: sum.splits)
qed


lemma try_props:
  assumes tr: "packageOperation_try env operation s = (r, t)"
  shows "currentDirectory t = currentDirectory s"
    and "isAbsolute (currentDirectory s) \<Longrightarrow>
         cwd s = ''/'' @ join ''/'' (fs_key (cwd s) (currentDirectory s)) \<Longrightarrow>
         r = Inr v \<Longrightarrow> cwd t = cwd s"
proof -
  let ?b = "truthy (po_directory operation)"
  let ?first = "if ?b then chdir (resolveProjectPath (template (po_directory operation)) s) s
                else Inr s"
  have both: "currentDirectory t = currentDirectory s
        \<and> (isAbsolute (currentDirectory s) \<longrightarrow>
            cwd s = ''/'' @ join ''/'' (fs_key (cwd s) (currentDirectory s)) \<longrightarrow>
            r = Inr v \<longrightarrow> cwd t = cwd s)"
  proof (cases ?first)
    case (Inl e)
    with tr show ?thesis by (auto simp: packageOperation_try_def)
  next
    case (Inr s1)
    have c1: "currentDirectory s1 = currentDirectory s"
      using Inr by (auto split: if_splits dest: chdir_frame)
    have n1: "\<not> ?b \<Longrightarrow> s1 = s"
      using Inr by simp
    show ?thesis
    proof (cases "package_command operation")
      case (Inl e)
      with tr Inr c1 show ?thesis by (auto simp: packageOperation_try_def)
    next
      case cmd: (Inr cmd)
      from tr Inr cmd
      have run: "(case execPromise env cmd s1 of
                   (Inl e, s2) \<Rightarrow> (Inl e, s2)
                 | (Inr out, s2) \<Rightarrow>
                     if ?b then (case chdir (currentDirectory s2) s2 of
                                  Inl e \<Rightarrow> (Inl e, s2)
                                | Inr s3 \<Rightarrow> (Inr (Ok_output out), s3))
                     else (Inr (Ok_output out), s2)) = (r, t)"
        by (simp add: packageOperation_try_def)
      show ?thesis
      proof (cases ?b)
        case True
        with try_tail(1) [OF run] try_tail(3) [OF run True _ _ c1] c1 show ?thesis by simp
      next
        case False
        with try_tail(1) [OF run] try_tail(2) [OF run False] c1 n1 show ?thesis by simp
      qed
    qed
  qed
  from both show "currentDirectory t = currentDirectory s" by simp
  from both show "isAbsolute (currentDirectory s) \<Longrightarrow>
         cwd s = ''/'' @ join ''/'' (fs_key (cwd s) (currentDirectory s)) \<Longrightarrow>
         r = Inr v \<Longrightarrow> cwd t = cwd s" by simp
qed

text \<open>
  The only other place that changes the working directory is \<^verbatim>\<open>handleProjectSetup\<close>,
  which assigns the path to \<open>currentDirectory\<close> right after \<^verbatim>\<open>process.chdir\<close> into it: the
  process is then in \<open>currentDirectory\<close> again.
\<close>

lemma project_directory_entered:
  assumes "isAbsolute p" and "chdir p s = Inr s'"
  shows "isAbsolute (currentDirectory (s'\<lparr>currentDirectory := p\<rparr>))
       \<and> cwd (s'\<lparr>currentDirectory := p\<rparr>)
           = ''/'' @ join ''/'' (fs_key (cwd (s'\<lparr>currentDirectory := p\<rparr>))
                                   (currentDirectory (s'\<lparr>currentDirectory := p\<rparr>)))"
  using assms fs_key_absolute [of p "cwd s" "''/'' @ join ''/'' (fs_key (cwd s) p)"]
  by (auto simp: chdir_cases split: if_splits)

lemmas path_eval = resolveProjectPath_def isAbsolute_def path_join_def normalize_def fs_key_def
  is_dir_def chdir_def

lemma demo_gone_fields:
  "cwd demo_gone_world = ''/w/demo''"
  "currentDirectory demo_gone_world = ''/w/demo''"
  "files demo_gone_world = [([''w''], Dir)]"
  by (simp_all add: demo_gone_world_def setup_demo_def remove_demo_def initial_world_def
        dispatch_def handleProjectSetup_def fs_mkdir_def fs_rm_def inside_def
        performFileOperation_def fileOperation_body_def truthy_def template_def or_else_def
        console_def emit_def Let_def path_eval)

lemma install_from_w_stays:
  assumes "cwd s = ''/w/demo''" and "currentDirectory s = ''/w/demo''"
      and "files s = [([''w''], Dir)]"
      and "shell env = (\<lambda>cmd dir fs. (out, fs))"
  shows "cwd (snd (handlePackageOperation env install_from_w s)) = ''/w''"
    and "fst (handlePackageOperation env install_from_w s)
           = Inl (Error ''ENOENT: no such file or directory, chdir /w/demo'')"
  using assms
  by (cases out; simp add: handlePackageOperation_def packageOperation_try_def package_command_def
        joined_packages_def execPromise_def install_from_w_def truthy_def template_def or_else_def
        console_def emit_def Let_def path_eval)+

section \<open>Facts about the dispatcher\<close>

lemma run_actions_append:
  "run_actions env (xs @ ys) s =
     (case run_actions env xs s of (Inl e, s') \<Rightarrow> (Inl e, s') | (Inr u, s') \<Rightarrow> run_actions env ys s')"
  by (induction xs arbitrary: s) (auto split: prod.splits sum.splits)

lemmas file_eval = performFileOperation_def fileOperation_body_def fs_readFile_def fs_writeFile_def
  dispatch_def remember_def console_def emit_def Let_def

lemma read_missing_fails:
  assumes "cwd s = ''/w''" and "currentDirectory s = ''/w''"
      and "files s = [([''w''], Dir), ([''w'', ''a.txt''], File ''hi'')]"
  shows "dispatch env read_missing s
           = (Inl (Error ''ENOENT: no such file or directory, open /w/missing.txt''),
              console ''File operation error: ENOENT: no such file or directory, open /w/missing.txt'' s)"
  using assms
  by (simp add: read_missing_def dispatch_def performFileOperation_def fileOperation_body_def
        fs_readFile_def Let_def path_eval)

section \<open>Facts about the shutdown\<close>
















lemmas exit_eval = main_exit_def stopProcess_def busy_world_def initial_world_def srv_entry_def
  quiet_env_def console_def emit_def Let_def

lemmas json_eval = parse_plan_text_def JSON_parse_def cleanJson_def trim_def is_space_def skip_ws_def
  json_ws_def parse_number_def digits1_def is_digit_def unescape_def push_def
  is_line_terminator_def starts_line_comment_def substring_def indexOf_def lastIndexOf_def

section \<open>Stopping a process\<close>

text \<open>
  C8. For a name that is not in the registry, \<^verbatim>\<open>stopProcess\<close> returns
  \<^verbatim>\<open>{success: false, message}\<close>: it cannot throw (its result type has no error), and it
  leaves the process registry, like every other part of the state but the console, as
  it was.
\<close>

theorem stopProcess_absent:
  assumes "map_of (runningProcesses s) processName = None"
  shows "fst (stopProcess env processName s)
           = Fail_message (''No running process named '' @ processName)
       \<and> \<not> success (fst (stopProcess env processName s))
       \<and> runningProcesses (snd (stopProcess env processName s)) = runningProcesses s
       \<and> snd (stopProcess env processName s)
           = s\<lparr>events := events s @ [Console (''No running process named '' @ processName)]\<rparr>"
  using assms by (simp add: stopProcess_def console_def)

theorem stopProcess_absent_witness:
  "map_of (runningProcesses srv_world) ''db'' = None
   \<and> fst (stopProcess quiet_env ''db'' srv_world) = Fail_message ''No running process named db''
   \<and> runningProcesses (snd (stopProcess quiet_env ''db'' srv_world)) = [(''srv'', srv_entry)]"
proof -
  have h: "map_of (runningProcesses srv_world) ''db'' = None"
    by (simp add: srv_world_def)
  show ?thesis
    using h stopProcess_absent [OF h, of quiet_env]
    by (simp add: srv_world_def)
qed

text \<open>
  C7, as the code has it. For a name in the registry \<^verbatim>\<open>stopProcess\<close> always calls
  \<^verbatim>\<open>kill()\<close> on the registered handle. When \<^verbatim>\<open>kill()\<close> returns, also when it returns
  \<^verbatim>\<open>false\<close> because the child has already exited, the entry is removed, the other
  entries stay, and the result is a success. When \<^verbatim>\<open>kill()\<close> throws, the \<^verbatim>\<open>catch\<close>
  branch returns \<^verbatim>\<open>{success: false, error}\<close> and the entry stays in the registry.
\<close>

theorem stopProcess_present:
  assumes "map_of (runningProcesses s) processName = Some entry"
  shows "events (snd (stopProcess env processName s)) ! length (events s) = Kill (process entry)
       \<and> (kill_outcome env (process entry) \<in> {Delivered, AlreadyExited} \<longrightarrow>
            fst (stopProcess env processName s)
              = Ok_message (''Process '' @ processName @ '' stopped'')
          \<and> runningProcesses (snd (stopProcess env processName s))
              = AList.delete processName (runningProcesses s)
          \<and> map_of (runningProcesses (snd (stopProcess env processName s))) processName = None)
       \<and> (\<forall>msg. kill_outcome env (process entry) = KillThrows msg \<longrightarrow>
            fst (stopProcess env processName s) = Fail_error msg
          \<and> runningProcesses (snd (stopProcess env processName s)) = runningProcesses s)"
  using assms
  by (auto simp: stopProcess_def console_def emit_def nth_append delete_conv
           split: kill_result.splits)

theorem stopProcess_present_witness:
  "map_of (runningProcesses srv_world) ''srv'' = Some srv_entry
   \<and> kill_outcome (quiet_env\<lparr>kill_outcome := (\<lambda>h. AlreadyExited)\<rparr>) (process srv_entry)
       \<in> {Delivered, AlreadyExited}
   \<and> fst (stopProcess (quiet_env\<lparr>kill_outcome := (\<lambda>h. AlreadyExited)\<rparr>) ''srv'' srv_world)
       = Ok_message ''Process srv stopped''
   \<and> runningProcesses
       (snd (stopProcess (quiet_env\<lparr>kill_outcome := (\<lambda>h. AlreadyExited)\<rparr>) ''srv'' srv_world)) = []"
proof -
  have h: "map_of (runningProcesses srv_world) ''srv'' = Some srv_entry"
    by (simp add: srv_world_def)
  show ?thesis
    using h stopProcess_present [OF h, of "quiet_env\<lparr>kill_outcome := (\<lambda>h. AlreadyExited)\<rparr>"]
    by (simp add: srv_world_def)
qed

text \<open>
  The claim as the specification words it (success and an absent entry for every
  registered name) fails when \<^verbatim>\<open>kill()\<close> throws.
\<close>

theorem stopProcess_kill_throws_counterexample:
  "\<not> (success (fst (stopProcess throwing_env ''srv'' srv_world))
      \<and> map_of (runningProcesses (snd (stopProcess throwing_env ''srv'' srv_world))) ''srv'' = None)"
  by (simp add: stopProcess_def srv_world_def initial_world_def srv_entry_def throwing_env_def
        quiet_env_def console_def emit_def)

section \<open>Starting a process under a name in use\<close>

text \<open>
  C3, as the code has it. After any sequence of \<^verbatim>\<open>startProcess\<close> calls the registry
  holds at most one entry for a name. A start whose name is registered calls
  \<^verbatim>\<open>stopProcess\<close> first: the first thing it does is \<^verbatim>\<open>kill()\<close> on the registered handle,
  and when that call returns, the old entry is gone before the rest of the start runs.
  When \<^verbatim>\<open>kill()\<close> throws the old entry is still there when the start goes on. A start
  that answers with a process name has stored the new child under that name.
\<close>

theorem startProcess_same_name:
  assumes d: "distinct (map fst (runningProcesses s))"
  shows "length (filter (\<lambda>kv. fst kv = nm) (runningProcesses (start_all env calls s))) \<le> 1
       \<and> (\<forall>old. map_of (runningProcesses s) (processName_of (name opts) cmd) = Some old \<longrightarrow>
            events (snd (startProcess env cmd opts s)) ! length (events s) = Kill (process old)
          \<and> (kill_outcome env (process old) \<in> {Delivered, AlreadyExited} \<longrightarrow>
               map_of (runningProcesses (snd (stopProcess env (processName_of (name opts) cmd) s)))
                 (processName_of (name opts) cmd) = None
             \<and> startProcess env cmd opts s
                 = launch env cmd opts (processName_of (name opts) cmd)
                     (snd (stopProcess env (processName_of (name opts) cmd) s))))
       \<and> (\<forall>n. fst (startProcess env cmd opts s) = Inr (Ok_processName n) \<longrightarrow>
            n = processName_of (name opts) cmd
          \<and> map_of (runningProcesses (snd (startProcess env cmd opts s))) n
              = Some \<lparr>process = next_handle s, command = cmd, startTime = clock s,
                      logFile = opt_logFile opts\<rparr>)"
  using entries_at_most_one [OF start_all_distinct [OF d], of nm env calls]
    startProcess_signals_first [of s opts cmd _ env]
    stopProcess_removes [of s "processName_of (name opts) cmd" _ env]
    startProcess_after_stop [of s opts cmd _ env]
    startProcess_registers [of env cmd opts s]
  by blast

theorem startProcess_same_name_witness:
  "distinct (map fst (runningProcesses srv_world))
   \<and> length (filter (\<lambda>kv. fst kv = ''srv'')
        (runningProcesses
           (start_all quiet_env
              [(''node a.js'', default_options\<lparr>name := Some ''srv''\<rparr>),
               (''node b.js'', default_options\<lparr>name := Some ''srv''\<rparr>)] srv_world))) \<le> 1
   \<and> events (snd (startProcess quiet_env ''node a.js'' (default_options\<lparr>name := Some ''srv''\<rparr>) srv_world))
        ! 0 = Kill 7
   \<and> map_of (runningProcesses
         (snd (startProcess quiet_env ''node a.js'' (default_options\<lparr>name := Some ''srv''\<rparr>) srv_world)))
        ''srv'' = Some \<lparr>process = 8, command = ''node a.js'', startTime = 0, logFile = None\<rparr>"
proof -
  have d: "distinct (map fst (runningProcesses srv_world))"
    by (simp add: srv_world_def)
  have n: "processName_of (Some ''srv'') ''node a.js'' = ''srv''"
    by (simp add: processName_of_def truthy_def template_def)
  have old: "map_of (runningProcesses srv_world) ''srv'' = Some srv_entry"
    by (simp add: srv_world_def)
  have r: "fst (startProcess quiet_env ''node a.js'' (default_options\<lparr>name := Some ''srv''\<rparr>) srv_world)
             = Inr (Ok_processName ''srv'')"
    using startProcess_background [of "default_options\<lparr>name := Some ''srv''\<rparr>" "''node a.js''" quiet_env srv_world]
    by (simp add: n default_options_def truthy_def)
  show ?thesis
    using d old r
      startProcess_same_name [OF d, of "''srv''" quiet_env
        "[(''node a.js'', default_options\<lparr>name := Some ''srv''\<rparr>),
          (''node b.js'', default_options\<lparr>name := Some ''srv''\<rparr>)]"
        "default_options\<lparr>name := Some ''srv''\<rparr>" "''node a.js''"]
    by (simp add: n default_options_def srv_world_def initial_world_def srv_entry_def)
qed

text \<open>
  The claim as the specification words it (the previous process is removed by every
  start on its name) fails for a start that waits for its command when \<^verbatim>\<open>kill()\<close>
  throws: the old entry is still registered afterwards.
\<close>

theorem startProcess_keeps_old_counterexample:
  "map_of (runningProcesses srv_world) ''srv'' = Some srv_entry
   \<and> \<not> (srv_entry \<notin> snd ` set (runningProcesses
            (snd (startProcess throwing_env ''npm test''
                    (default_options\<lparr>name := Some ''srv'', waitForExit := True\<rparr>) srv_world))))"
  by (simp add: startProcess_def launch_def stopProcess_def execPromise_def processName_of_def
        truthy_def template_def default_options_def throwing_env_def quiet_env_def srv_world_def
        initial_world_def srv_entry_def console_def emit_def Let_def)

section \<open>Watching a directory\<close>

text \<open>
  C6. The \<^verbatim>\<open>watch\<close> file operation on one path, invoked any number of times in a row,
  leaves the state the first invocation left: every later invocation changes nothing
  and answers with the same success message, and the watcher registry holds exactly
  one entry for the resolved path.
\<close>

theorem watch_twice:
  assumes w: "fo_action operation = ''watch''"
      and d: "distinct (map fst (fileWatchers s))"
  shows "((\<lambda>x. snd (performFileOperation operation x)) ^^ Suc n) s
           = snd (performFileOperation operation s)
       \<and> length (filter (\<lambda>kv. fst kv = resolveProjectPath (fo_path operation) s)
                   (fileWatchers (((\<lambda>x. snd (performFileOperation operation x)) ^^ Suc n) s))) = 1
       \<and> fst (performFileOperation operation (snd (performFileOperation operation s)))
           = Inr (Ok_message (''Watching: '' @ fo_path operation))"
proof -
  let ?p = "resolveProjectPath (fo_path operation) s"
  let ?s1 = "watchFiles ?p s"
  have rp: "resolveProjectPath (fo_path operation) ?s1 = ?p"
    by (simp add: resolveProjectPath_def watchFiles_currentDirectory)
  have step: "snd (performFileOperation operation ?s1) = ?s1"
    using w by (simp add: perform_watch rp watchFiles_again watchFiles_has)
  have iter: "((\<lambda>x. snd (performFileOperation operation x)) ^^ m) ?s1 = ?s1" for m
    by (induction m) (simp_all add: step)
  have first: "snd (performFileOperation operation s) = ?s1"
    using w by (simp add: perform_watch)
  have all: "((\<lambda>x. snd (performFileOperation operation x)) ^^ Suc n) s = ?s1"
    by (simp add: funpow_Suc_right first iter del: funpow.simps)
  obtain v where v: "map_of (fileWatchers ?s1) ?p = Some v"
    using watchFiles_has [of ?p s] by auto
  have one: "length (filter (\<lambda>kv. fst kv = ?p) (fileWatchers ?s1)) = 1"
    using entries_one [OF watchFiles_distinct [OF d] v] .
  have c2: "length (filter (\<lambda>kv. fst kv = ?p)
                 (fileWatchers (((\<lambda>x. snd (performFileOperation operation x)) ^^ Suc n) s))) = 1"
    by (simp only: all one)
  have c3: "fst (performFileOperation operation (snd (performFileOperation operation s)))
              = Inr (Ok_message (''Watching: '' @ fo_path operation))"
    using w by (simp add: perform_watch)
  from all first c2 c3 show ?thesis by (intro conjI) simp_all
qed

theorem watch_twice_witness:
  "fo_action watch_src = ''watch''
   \<and> distinct (map fst (fileWatchers initial_world))
   \<and> snd (performFileOperation watch_src (snd (performFileOperation watch_src initial_world)))
       = snd (performFileOperation watch_src initial_world)
   \<and> fileWatchers (snd (performFileOperation watch_src initial_world)) = [(''/w/src'', 0)]"
proof -
  have w: "fo_action watch_src = ''watch''" by (simp add: watch_src_def)
  have d: "distinct (map fst (fileWatchers initial_world))" by (simp add: initial_world_def)
  have f: "fileWatchers (snd (performFileOperation watch_src initial_world)) = [(''/w/src'', 0)]"
    by (simp add: performFileOperation_def fileOperation_body_def watchFiles_def
          resolveProjectPath_def isAbsolute_def
          path_join_def normalize_def watch_src_def initial_world_def console_def emit_def Let_def)
  show ?thesis
    using w d f watch_twice [OF w d, of "Suc 0"]
    by (simp add: funpow_Suc_right del: funpow.simps)
qed

section \<open>The default process name\<close>

text \<open>
  C10, as the code has it. Without a name (or with an empty one) the registry key is
  \<^verbatim>\<open>command.split(' ')[0]\<close>, the text of the command before its first space character.
  So two background starts without a log file, of commands that agree on that
  non-empty text, use one key: the first start stores its child under it, the second
  calls \<^verbatim>\<open>kill()\<close> on that child's handle before anything else, and afterwards the key
  holds the entry of the second command.
\<close>

theorem default_name_collision:
  assumes n1: "\<not> truthy (name o1)" and n2: "\<not> truthy (name o2)"
      and w1: "\<not> waitForExit o1" and w2: "\<not> waitForExit o2"
      and l1: "\<not> truthy (opt_logFile o1)" and l2: "\<not> truthy (opt_logFile o2)"
      and k1: "takeWhile (\<lambda>x. x \<noteq> CHR '' '') c1 = k"
      and k2: "takeWhile (\<lambda>x. x \<noteq> CHR '' '') c2 = k"
      and k: "k \<noteq> []"
  shows "processName_of (name o1) c1 = k \<and> processName_of (name o2) c2 = k
       \<and> map_of (runningProcesses (snd (startProcess env c1 o1 s))) k
           = Some \<lparr>process = next_handle s, command = c1, startTime = clock s,
                   logFile = opt_logFile o1\<rparr>
       \<and> events (snd (startProcess env c2 o2 (snd (startProcess env c1 o1 s))))
           ! length (events (snd (startProcess env c1 o1 s))) = Kill (next_handle s)
       \<and> map_of (runningProcesses (snd (startProcess env c2 o2 (snd (startProcess env c1 o1 s))))) k
           = Some \<lparr>process = next_handle (snd (startProcess env c1 o1 s)), command = c2,
                   startTime = clock (snd (startProcess env c1 o1 s)), logFile = opt_logFile o2\<rparr>"
proof -
  let ?s1 = "snd (startProcess env c1 o1 s)"
  have p1: "processName_of (name o1) c1 = k"
    using processName_of_default [OF n1] k1 by simp
  have p2: "processName_of (name o2) c2 = k"
    using processName_of_default [OF n2] k2 by simp
  have r1: "fst (startProcess env c1 o1 s) = Inr (Ok_processName k)"
    using startProcess_background [OF w1 l1, of c1 env s] k1 k p1 by simp
  have e1: "map_of (runningProcesses ?s1) k
              = Some \<lparr>process = next_handle s, command = c1, startTime = clock s,
                      logFile = opt_logFile o1\<rparr>"
    using startProcess_registers [OF r1] by blast
  have r2: "fst (startProcess env c2 o2 ?s1) = Inr (Ok_processName k)"
    using startProcess_background [OF w2 l2, of c2 env ?s1] k2 k p2 by simp
  have e2: "map_of (runningProcesses (snd (startProcess env c2 o2 ?s1))) k
              = Some \<lparr>process = next_handle ?s1, command = c2, startTime = clock ?s1,
                      logFile = opt_logFile o2\<rparr>"
    using startProcess_registers [OF r2] by blast
  have old: "map_of (runningProcesses ?s1) (processName_of (name o2) c2)
               = Some \<lparr>process = next_handle s, command = c1, startTime = clock s,
                       logFile = opt_logFile o1\<rparr>"
    using e1 p2 by simp
  have sig: "events (snd (startProcess env c2 o2 ?s1)) ! length (events ?s1) = Kill (next_handle s)"
    using startProcess_signals_first [OF old, of env] by simp
  from p1 p2 e1 sig e2 show ?thesis by blast
qed

theorem default_name_collision_witness:
  "\<not> truthy (name default_options) \<and> \<not> waitForExit default_options
   \<and> \<not> truthy (opt_logFile default_options)
   \<and> takeWhile (\<lambda>x. x \<noteq> CHR '' '') ''node a.js'' = ''node''
   \<and> takeWhile (\<lambda>x. x \<noteq> CHR '' '') ''node b.js'' = ''node'' \<and> ''node'' \<noteq> []
   \<and> processName_of (name default_options) ''node a.js'' = ''node''
   \<and> events (snd (startProcess quiet_env ''node b.js'' default_options
                     (snd (startProcess quiet_env ''node a.js'' default_options initial_world))))
        ! length (events (snd (startProcess quiet_env ''node a.js'' default_options initial_world)))
       = Kill 0
   \<and> map_of (runningProcesses
         (snd (startProcess quiet_env ''node b.js'' default_options
                 (snd (startProcess quiet_env ''node a.js'' default_options initial_world))))) ''node''
       = Some \<lparr>process = next_handle (snd (startProcess quiet_env ''node a.js'' default_options initial_world)),
               command = ''node b.js'',
               startTime = clock (snd (startProcess quiet_env ''node a.js'' default_options initial_world)),
               logFile = None\<rparr>"
proof -
  have a: "\<not> truthy (name default_options)" "\<not> waitForExit default_options"
    "\<not> truthy (opt_logFile default_options)"
    by (simp_all add: default_options_def truthy_def)
  have b: "takeWhile (\<lambda>x. x \<noteq> CHR '' '') ''node a.js'' = ''node''"
    "takeWhile (\<lambda>x. x \<noteq> CHR '' '') ''node b.js'' = ''node''" "''node'' \<noteq> []"
    by simp_all
  have h: "next_handle initial_world = 0" "opt_logFile default_options = None"
    by (simp_all add: initial_world_def default_options_def)
  show ?thesis
    using a b
      default_name_collision [OF a(1) a(1) a(2) a(2) a(3) a(3) b(1) b(2) b(3), of quiet_env initial_world]
    by (simp only: h simp_thms)
qed

text \<open>
  The claim as the specification words it, with the key the first white-space separated
  token, fails for a command whose first separator is a tab: the key is the whole
  command.
\<close>

theorem default_name_tab_counterexample:
  "processName_of None (''npm'' @ [CHR 0x09] @ ''start'')
     \<noteq> first_whitespace_token (''npm'' @ [CHR 0x09] @ ''start'')"
  by (simp add: processName_of_def truthy_def first_whitespace_token_def is_space_def)

section \<open>Database types\<close>

text \<open>
  C9. For \<^verbatim>\<open>mysql\<close>, \<^verbatim>\<open>postgres\<close> and \<^verbatim>\<open>sqlite\<close> the database executor prints the
  "not yet implemented" notice and returns \<^verbatim>\<open>null\<close> without throwing and without any
  other effect; for every type outside these three and \<^verbatim>\<open>mongodb\<close> it throws the
  unsupported-type error.
\<close>

theorem database_stub_types:
  "(dbType operation \<in> {''mysql'', ''postgres'', ''sqlite''} \<longrightarrow>
      handleDatabaseOperation env operation s
        = (Inr Null, console (dbType operation @ '' operations not yet implemented'') s))
   \<and> (dbType operation \<notin> {''mongodb'', ''mysql'', ''postgres'', ''sqlite''} \<longrightarrow>
      handleDatabaseOperation env operation s
        = (Inl (Error (''Unsupported database type: '' @ dbType operation)),
           console (''Database error: Unsupported database type: '' @ dbType operation) s))"
  by (auto simp: handleDatabaseOperation_def)

theorem database_stub_types_witness:
  "dbType mysql_query \<in> {''mysql'', ''postgres'', ''sqlite''}
   \<and> fst (handleDatabaseOperation quiet_env mysql_query initial_world) = Inr Null
   \<and> events (snd (handleDatabaseOperation quiet_env mysql_query initial_world))
       = [Console ''mysql operations not yet implemented'']
   \<and> dbType (mysql_query\<lparr>dbType := ''oracle''\<rparr>) \<notin> {''mongodb'', ''mysql'', ''postgres'', ''sqlite''}
   \<and> fst (handleDatabaseOperation quiet_env (mysql_query\<lparr>dbType := ''oracle''\<rparr>) initial_world)
       = Inl (Error ''Unsupported database type: oracle'')"
  using database_stub_types [of mysql_query quiet_env initial_world]
    database_stub_types [of "mysql_query\<lparr>dbType := ''oracle''\<rparr>" quiet_env initial_world]
  by (simp add: mysql_query_def console_def initial_world_def)

section \<open>The working directory around a package operation\<close>

text \<open>
  C1, as the code has it. \<^verbatim>\<open>handlePackageOperation\<close> changes back to \<open>currentDirectory\<close>
  on both ways out: after the command when a directory was given, and in the \<^verbatim>\<open>catch\<close>
  block. So when the process is in \<open>currentDirectory\<close> before the call (as it is from
  the start of a session, where \<open>currentDirectory\<close> is \<^verbatim>\<open>process.cwd()\<close>) and that
  directory still exists when the call ends, the working directory of the process
  after the call is the one before it, whether the call returns or throws, and
  \<open>currentDirectory\<close> is unchanged.
\<close>

theorem package_operation_restores_cwd:
  assumes abs: "isAbsolute (currentDirectory s)"
      and at: "cwd s = ''/'' @ join ''/'' (fs_key (cwd s) (currentDirectory s))"
      and still: "is_dir (files (snd (handlePackageOperation env operation s)))
                    (fs_key (cwd s) (currentDirectory s))"
  shows "cwd (snd (handlePackageOperation env operation s)) = cwd s
       \<and> currentDirectory (snd (handlePackageOperation env operation s)) = currentDirectory s"
proof -
  obtain r t where tr: "packageOperation_try env operation s = (r, t)"
    by (cases "packageOperation_try env operation s")
  have cd: "currentDirectory t = currentDirectory s"
    using try_props(1) [OF tr] .
  show ?thesis
  proof (cases r)
    case (Inr v)
    with tr have "handlePackageOperation env operation s = (Inr v, t)"
      by (simp add: handlePackageOperation_def)
    with try_props(2) [OF tr abs at Inr] cd show ?thesis by simp
  next
    case (Inl e)
    have ft: "files (snd (handlePackageOperation env operation s)) = files t"
      using tr Inl by (auto simp: handlePackageOperation_def console_def split: sum.splits dest: chdir_frame)
    with still have "is_dir (files t) (fs_key (cwd s) (currentDirectory s))" by simp
    from chdir_back [OF abs at cd this] tr Inl cd show ?thesis
      by (simp add: handlePackageOperation_def console_def)
  qed
qed


theorem package_operation_restores_cwd_witness:
  "isAbsolute (currentDirectory app_world)
   \<and> cwd app_world = ''/'' @ join ''/'' (fs_key (cwd app_world) (currentDirectory app_world))
   \<and> is_dir (files (snd (handlePackageOperation failing_shell_env install_in_app app_world)))
         (fs_key (cwd app_world) (currentDirectory app_world))
   \<and> fst (handlePackageOperation failing_shell_env install_in_app app_world)
       = Inl (Error ''Command failed: exit code 1'')
   \<and> fst (handlePackageOperation quiet_env install_in_app app_world) = Inr (Ok_output [])
   \<and> cwd (snd (handlePackageOperation failing_shell_env install_in_app app_world)) = ''/w''
   \<and> cwd (snd (handlePackageOperation quiet_env install_in_app app_world)) = ''/w''"
proof -
  have a: "isAbsolute (currentDirectory app_world)"
    by (simp add: app_world_def initial_world_def isAbsolute_def)
  have b: "cwd app_world = ''/'' @ join ''/'' (fs_key (cwd app_world) (currentDirectory app_world))"
    by (simp add: app_world_def initial_world_def path_eval)
  have r1: "fst (handlePackageOperation failing_shell_env install_in_app app_world)
              = Inl (Error ''Command failed: exit code 1'')"
    and f1: "files (snd (handlePackageOperation failing_shell_env install_in_app app_world))
              = [([''w''], Dir), ([''w'', ''app''], Dir)]"
    by (simp_all add: handlePackageOperation_def packageOperation_try_def package_command_def
          joined_packages_def execPromise_def failing_shell_env_def quiet_env_def install_in_app_def
          app_world_def initial_world_def truthy_def template_def or_else_def console_def emit_def
          path_eval Let_def)
  have r2: "fst (handlePackageOperation quiet_env install_in_app app_world) = Inr (Ok_output [])"
    and f2: "files (snd (handlePackageOperation quiet_env install_in_app app_world))
              = [([''w''], Dir), ([''w'', ''app''], Dir)]"
    by (simp_all add: handlePackageOperation_def packageOperation_try_def package_command_def
          joined_packages_def execPromise_def quiet_env_def install_in_app_def trim_def
          app_world_def initial_world_def truthy_def template_def or_else_def console_def emit_def
          path_eval Let_def)
  have c1: "is_dir (files (snd (handlePackageOperation failing_shell_env install_in_app app_world)))
              (fs_key (cwd app_world) (currentDirectory app_world))"
    by (simp add: f1) (simp add: app_world_def initial_world_def path_eval)
  have c2: "is_dir (files (snd (handlePackageOperation quiet_env install_in_app app_world)))
              (fs_key (cwd app_world) (currentDirectory app_world))"
    by (simp add: f2) (simp add: app_world_def initial_world_def path_eval)
  have w: "cwd app_world = ''/w''"
    by (simp add: app_world_def initial_world_def)
  show ?thesis
    using a b c1 r1 r2 package_operation_restores_cwd [OF a b c1]
      package_operation_restores_cwd [OF a b c2]
    by (simp only: w simp_thms)
qed

text \<open>
  The claim as the specification words it (the change of directory is always undone)
  fails when the directory to go back to is gone: both restoring \<^verbatim>\<open>process.chdir\<close> calls
  throw, and the process stays in the directory of the operation. Here the session is
  in \<^verbatim>\<open>/w/demo\<close>, which a file operation has removed, and the package operation names
  \<^verbatim>\<open>/w\<close>; the process ends in \<^verbatim>\<open>/w\<close>, whether the command succeeds or fails.
\<close>

theorem package_operation_leaves_cwd_counterexample:
  "cwd demo_gone_world = ''/w/demo''
   \<and> \<not> (cwd (snd (handlePackageOperation quiet_env install_from_w demo_gone_world))
          = cwd demo_gone_world)
   \<and> \<not> (cwd (snd (handlePackageOperation failing_shell_env install_from_w demo_gone_world))
          = cwd demo_gone_world)"
  using install_from_w_stays(1) [OF demo_gone_fields, of quiet_env "Inr []"]
    install_from_w_stays(1) [OF demo_gone_fields, of failing_shell_env
      "Inl ''Command failed: exit code 1''"]
  by (simp add: demo_gone_fields quiet_env_def failing_shell_env_def)

section \<open>A failing action\<close>

text \<open>
  C5. When the executor of the action at index \<open>k\<close> of a plan throws, after the
  actions before it have run, the loop ends there with that error: the state the
  dispatcher leaves is the state the failing action left (plus the error line), whatever
  actions follow, so none of them runs and nothing the earlier actions did is undone;
  \<^verbatim>\<open>executeAICommand\<close> returns \<^verbatim>\<open>false\<close>.
\<close>

theorem failing_action_aborts_plan:
  assumes acts: "p_actions pl = before @ a # after"
      and pre: "run_actions env before (remember cmd pl s) = (Inr (), s1)"
      and fail: "dispatch env a s1 = (Inl e, s2)"
  shows "run_actions env (before @ a # after) (remember cmd pl s) = (Inl e, s2)
       \<and> execute_plan env cmd pl s = (False, console (''Error: '' @ message e) s2)"
  using assms by (simp add: execute_plan_def run_actions_append)

theorem failing_action_aborts_plan_witness:
  "p_actions three_steps = [write_a] @ read_missing # [write_b]
   \<and> fst (run_actions quiet_env [write_a] (remember ''go'' three_steps initial_world)) = Inr ()
   \<and> fst (dispatch quiet_env read_missing
              (snd (run_actions quiet_env [write_a] (remember ''go'' three_steps initial_world))))
       = Inl (Error ''ENOENT: no such file or directory, open /w/missing.txt'')
   \<and> fst (execute_plan quiet_env ''go'' three_steps initial_world) = False
   \<and> files (snd (execute_plan quiet_env ''go'' three_steps initial_world))
       = [([''w''], Dir), ([''w'', ''a.txt''], File ''hi'')]"
proof -
  let ?s0 = "remember ''go'' three_steps initial_world"
  let ?s1 = "snd (run_actions quiet_env [write_a] ?s0)"
  let ?e = "Error ''ENOENT: no such file or directory, open /w/missing.txt''"
  let ?s2 = "console ''File operation error: ENOENT: no such file or directory, open /w/missing.txt'' ?s1"
  have acts: "p_actions three_steps = [write_a] @ read_missing # [write_b]"
    by (simp add: three_steps_def)
  have f1: "fst (run_actions quiet_env [write_a] ?s0) = Inr ()"
    and fs1: "files ?s1 = [([''w''], Dir), ([''w'', ''a.txt''], File ''hi'')]"
    and cd1: "cwd ?s1 = ''/w''" "currentDirectory ?s1 = ''/w''"
    by (simp_all add: write_a_def three_steps_def initial_world_def file_eval path_eval)
  have pre: "run_actions quiet_env [write_a] ?s0 = (Inr (), ?s1)"
    using f1 by (simp add: prod_eq_iff)
  have fail: "dispatch quiet_env read_missing ?s1 = (Inl ?e, ?s2)"
    using read_missing_fails [OF cd1 fs1] .
  have fs2: "files ?s2 = files ?s1"
    by (simp add: console_def)
  show ?thesis
    using acts f1 fail fs1 fs2 failing_action_aborts_plan [OF acts pre fail]
    by (simp add: console_def)
qed

section \<open>The exit sequence\<close>




text \<open>
  An error of \<^verbatim>\<open>watcher.close()\<close> is not caught in the \<^verbatim>\<open>exit\<close> branch: it leaves the loop,
  and the database connections are never closed. (The handler of fatal errors at the
  end of \<^verbatim>\<open>index.js\<close> wraps each of these calls in its own \<^verbatim>\<open>try\<close>.)
\<close>

theorem exit_close_error_propagates:
  "fst (main_exit close_failing_env busy_world) = Inl (Error ''watcher already closed'')
   \<and> closed_connections (events (snd (main_exit close_failing_env busy_world))) = []"
  by (simp add: exit_eval close_failing_env_def)

section \<open>An answer with text around the plan\<close>

text \<open>
  C4 does not hold of the code. An answer that puts a sentence before a balanced JSON
  object is rejected: \<^verbatim>\<open>JSON.parse(cleanJson)\<close> runs before the extraction, on a text
  that still holds the sentence, and throws; \<^verbatim>\<open>executeAICommand\<close> reports the error and
  returns \<^verbatim>\<open>false\<close>, with no history entry and no action run. The extraction that comes
  next in the source (from the first \<^verbatim>\<open>{\<close> to the last \<^verbatim>\<open>}\<close>) would have given the object.
\<close>

theorem prose_answer_rejected:
  "parse_plan_text prose_answer = Inl (SyntaxError ''Unexpected token in JSON'')
   \<and> JSON_parse (substring (indexOf CHR ''{'' prose_answer) (lastIndexOf CHR ''}'' prose_answer + 1)
                   prose_answer) = Inr listing_plan
   \<and> executeAICommand (quiet_env\<lparr>generateContent := (\<lambda>c. Inr prose_answer)\<rparr>) view ''list files''
        initial_world
       = (False, console ''Error: Unexpected token in JSON'' initial_world)"
proof -
  have p: "parse_plan_text prose_answer = Inl (SyntaxError ''Unexpected token in JSON'')"
    by (simp add: prose_answer_def json_eval)
  have j: "JSON_parse (substring (indexOf CHR ''{'' prose_answer)
                         (lastIndexOf CHR ''}'' prose_answer + 1) prose_answer) = Inr listing_plan"
    by (simp add: prose_answer_def listing_plan_def json_eval)
  show ?thesis
    using p j by (simp add: executeAICommand_def)
qed

text \<open>The same plan inside a code fence, with nothing else around it, is accepted.\<close>

theorem fenced_answer_accepted:
  "parse_plan_text fenced_answer = Inr listing_plan"
  by (simp add: fenced_answer_def listing_plan_def json_eval)

text \<open>
  An answer with a comment inside the object is rejected as well: the comments are
  stripped for the first \<^verbatim>\<open>JSON.parse\<close> only, and the second one reads the answer as it
  came.
\<close>

theorem commented_answer_rejected:
  "JSON_parse (cleanJson (trim commented_answer)) = Inr listing_plan
   \<and> parse_plan_text commented_answer = Inl (SyntaxError ''Unexpected token in JSON'')"
  by (simp add: commented_answer_def listing_plan_def json_eval)

end
